theory Spec2Isabelle
  imports Complex_Main
begin

section \<open>JavaScript values\<close>

text \<open>
  The pages and the client exchange JSON with the backend and test values for truthiness
  (\<^verbatim>\<open>if (token)\<close>, \<^verbatim>\<open>a || b\<close>, \<^verbatim>\<open>error?.response?.data?.message\<close>).
  A JavaScript string is modelled as the list of the bytes of its UTF-8 encoding, so that
  string equality and the empty string are those of the source.
\<close>

datatype js_value =
    JUndefined
  | JNull
  | JBool bool
  | JNum rat
  | JStr string
  | JArr "js_value list"
  | JObj "(string \<times> js_value) list"
  | JBlob string

fun truthy :: "js_value \<Rightarrow> bool" where
  "truthy JUndefined = False"
| "truthy JNull = False"
| "truthy (JBool b) = b"
| "truthy (JNum n) = (n \<noteq> 0)"
| "truthy (JStr s) = (s \<noteq> [])"
| "truthy (JArr xs) = True"
| "truthy (JObj kvs) = True"
| "truthy (JBlob bs) = True"

text \<open>\<^verbatim>\<open>a || b\<close>\<close>

definition or_else :: "js_value \<Rightarrow> js_value \<Rightarrow> js_value" where
  "or_else a b = (if truthy a then a else b)"

text \<open>
  \<^verbatim>\<open>v?.name\<close> for a name that no built-in prototype defines (the pages read
  \<^verbatim>\<open>message\<close> only): undefined on null and undefined, the own property of an
  object, undefined on every other value.
\<close>

fun opt_prop :: "js_value \<Rightarrow> string \<Rightarrow> js_value" where
  "opt_prop (JObj kvs) name = (case map_of kvs name of None \<Rightarrow> JUndefined | Some v \<Rightarrow> v)"
| "opt_prop v name = JUndefined"

text \<open>
  A template literal prints a number that is an integer of magnitude below \<open>10^21\<close>
  (every identifier the backend hands out) in decimal, with a minus sign when negative.
\<close>

fun nat_to_string :: "nat \<Rightarrow> string" where
  "nat_to_string n =
     (if n < 10 then [''0123456789'' ! n]
      else nat_to_string (n div 10) @ [''0123456789'' ! (n mod 10)])"

definition number_to_string :: "int \<Rightarrow> string" where
  "number_to_string i = (if i < 0 then ''-'' @ nat_to_string (nat (- i)) else nat_to_string (nat i))"


section \<open>The HTTP client wrapper (\<^verbatim>\<open>lib/api.ts\<close>)\<close>

datatype http_method = GET | POST | DELETE

datatype response_type = Json | Blob

datatype payload = JsonBody js_value | FormData "(string \<times> string) list"

text \<open>
  A request as the client's code configures it and hands it on to be sent; \<open>url\<close> is
  relative to the instance's \<^verbatim>\<open>baseURL\<close>, and \<open>method'\<close> is the \<^verbatim>\<open>method\<close> of
  the configuration. \<open>headers\<close> holds the header values as the code sets them. What the
  transport then does to a header value (\<^verbatim>\<open>XMLHttpRequest\<close> strips surrounding
  whitespace and refuses a value with a line break) is outside the model, and nothing below
  is stated about header values on the wire.
\<close>

record request =
  method' :: http_method
  url :: string
  payload :: "payload option"
  headers :: "string \<rightharpoonup> string"
  timeout :: nat
  responseType :: response_type

record response =
  status :: nat
  data :: js_value

text \<open>\<^verbatim>\<open>AxiosError\<close>: \<open>response\<close> is absent when no response arrived.\<close>

record axios_error =
  response :: "response option"

text \<open>
  The part of the browser the client touches: \<^verbatim>\<open>localStorage\<close>
  (\<^verbatim>\<open>getItem\<close> of an absent key is null, here \<open>None\<close>),
  \<^verbatim>\<open>window.location.href\<close>, and the requests that the client has handed on to be sent,
  each as the request interceptor returned it.
\<close>

record browser =
  localStorage :: "string \<rightharpoonup> string"
  location_href :: string
  network_log :: "request list"

text \<open>
  The network and the backend behind it: the response to a request, or \<open>None\<close> when
  none arrives (connection failure, timeout).
\<close>

type_synonym adapter = "request \<Rightarrow> response option"

text \<open>
  What axios does with the adapter's answer under its default \<^verbatim>\<open>validateStatus\<close>,
  which the wrapper never overrides: a status from 200 to 299 resolves, every other status
  rejects with an error that carries the response, and no response rejects with an error
  that carries none.
\<close>

definition settle :: "response option \<Rightarrow> axios_error + response" where
  "settle reply =
     (case reply of
        None \<Rightarrow> Inl \<lparr>response = None\<rparr>
      | Some r \<Rightarrow>
          if 200 \<le> status r \<and> status r < 300 then Inr r else Inl \<lparr>response = Some r\<rparr>)"

text \<open>The options a call may pass to \<^verbatim>\<open>get\<close> and \<^verbatim>\<open>post\<close>.\<close>

record call_config =
  cfg_headers :: "string \<rightharpoonup> string"
  cfg_timeout :: "nat option"
  cfg_responseType :: "response_type option"

definition no_config :: call_config where
  "no_config = \<lparr>cfg_headers = Map.empty, cfg_timeout = None, cfg_responseType = None\<rparr>"

text \<open>
  \<^verbatim>\<open>axios.create({ baseURL, timeout: 30000, headers: { 'Content-Type': 'application/json' } })\<close>
  and the merge of a call's options over these defaults.
\<close>

definition make_request :: "http_method \<Rightarrow> string \<Rightarrow> payload option \<Rightarrow> call_config \<Rightarrow> request" where
  "make_request m u p cfg =
     \<lparr>method' = m, url = u, payload = p,
      headers = [''Content-Type'' \<mapsto> ''application/json''] ++ cfg_headers cfg,
      timeout = (case cfg_timeout cfg of None \<Rightarrow> 30000 | Some t \<Rightarrow> t),
      responseType = (case cfg_responseType cfg of None \<Rightarrow> Json | Some t \<Rightarrow> t)\<rparr>"

subsection \<open>\<^verbatim>\<open>setupInterceptors\<close>\<close>

text \<open>
  The request interceptor:
  \<^verbatim>\<open>const token = localStorage.getItem('access_token');
  if (token) { config.headers.Authorization = `Bearer ${token}`; }
  return config;\<close>
  The test is for truthiness: null and the empty string both skip the assignment.
\<close>

definition request_interceptor :: "browser \<Rightarrow> request \<Rightarrow> request" where
  "request_interceptor b config =
     (case localStorage b ''access_token'' of
        None \<Rightarrow> config
      | Some token \<Rightarrow>
          if token \<noteq> [] then config\<lparr>headers := (headers config)(''Authorization'' \<mapsto> ''Bearer '' @ token)\<rparr>
          else config)"

text \<open>The response interceptor on success: \<^verbatim>\<open>(response) => response\<close>.\<close>

definition response_interceptor :: "response \<Rightarrow> response" where
  "response_interceptor r = r"

text \<open>
  The response interceptor on error:
  \<^verbatim>\<open>if (error.response?.status === 401) {
    localStorage.removeItem('access_token');
    window.location.href = '/login';
  }
  return Promise.reject(error);\<close>
\<close>

definition response_error_interceptor :: "axios_error \<Rightarrow> browser \<Rightarrow> (axios_error + response) \<times> browser" where
  "response_error_interceptor error b =
     (if map_option status (response error) = Some 401
      then (Inl error,
            b\<lparr>localStorage := (localStorage b)(''access_token'' := None), location_href := ''/login''\<rparr>)
      else (Inl error, b))"

text \<open>
  One request through the instance: the request interceptor, the hand-over to the adapter
  (which is where the request is logged), axios's settling of the answer, the response
  interceptor.
\<close>

definition client_request :: "adapter \<Rightarrow> request \<Rightarrow> browser \<Rightarrow> (axios_error + response) \<times> browser" where
  "client_request srv config b =
     (let sent = request_interceptor b config;
          b' = b\<lparr>network_log := network_log b @ [sent]\<rparr>
      in case settle (srv sent) of
           Inr r \<Rightarrow> (Inr (response_interceptor r), b')
         | Inl error \<Rightarrow> response_error_interceptor error b')"

definition client_get :: "adapter \<Rightarrow> string \<Rightarrow> call_config \<Rightarrow> browser \<Rightarrow> (axios_error + response) \<times> browser" where
  "client_get srv u cfg = client_request srv (make_request GET u None cfg)"

definition client_post :: "adapter \<Rightarrow> string \<Rightarrow> payload option \<Rightarrow> call_config \<Rightarrow> browser \<Rightarrow> (axios_error + response) \<times> browser" where
  "client_post srv u p cfg = client_request srv (make_request POST u p cfg)"

definition client_delete :: "adapter \<Rightarrow> string \<Rightarrow> browser \<Rightarrow> (axios_error + response) \<times> browser" where
  "client_delete srv u = client_request srv (make_request DELETE u None no_config)"

subsection \<open>The methods of \<^verbatim>\<open>ApiClient\<close>\<close>

text \<open>
  Every method has the shape
  \<^verbatim>\<open>const response = await this.client.get(...); return response.data;\<close>
  A rejected request rejects the method's promise with the same error.
\<close>

definition response_data :: "(axios_error + response) \<times> browser \<Rightarrow> (axios_error + js_value) \<times> browser" where
  "response_data out = (case out of (Inl error, b) \<Rightarrow> (Inl error, b) | (Inr r, b) \<Rightarrow> (Inr (data r), b))"

definition login :: "adapter \<Rightarrow> string \<Rightarrow> string \<Rightarrow> browser \<Rightarrow> (axios_error + js_value) \<times> browser" where
  "login srv username password b =
     response_data (client_post srv ''/auth/login''
       (Some (JsonBody (JObj [(''username'', JStr username), (''password'', JStr password)]))) no_config b)"

definition getProfile :: "adapter \<Rightarrow> browser \<Rightarrow> (axios_error + js_value) \<times> browser" where
  "getProfile srv b = response_data (client_get srv ''/auth/profile'' no_config b)"

definition getAlgorithms :: "adapter \<Rightarrow> browser \<Rightarrow> (axios_error + js_value) \<times> browser" where
  "getAlgorithms srv b = response_data (client_get srv ''/algorithms'' no_config b)"

definition getAlgorithmInfo :: "adapter \<Rightarrow> string \<Rightarrow> browser \<Rightarrow> (axios_error + js_value) \<times> browser" where
  "getAlgorithmInfo srv algorithmName b =
     response_data (client_get srv (''/algorithms/'' @ algorithmName @ ''/info'') no_config b)"

definition getAlgorithmParameters :: "adapter \<Rightarrow> string \<Rightarrow> browser \<Rightarrow> (axios_error + js_value) \<times> browser" where
  "getAlgorithmParameters srv algorithmName b =
     response_data (client_get srv (''/algorithms/'' @ algorithmName @ ''/parameters'') no_config b)"

definition getAlgorithmComparison :: "adapter \<Rightarrow> browser \<Rightarrow> (axios_error + js_value) \<times> browser" where
  "getAlgorithmComparison srv b = response_data (client_get srv ''/algorithms/comparison'' no_config b)"

definition getDatasets :: "adapter \<Rightarrow> browser \<Rightarrow> (axios_error + js_value) \<times> browser" where
  "getDatasets srv b = response_data (client_get srv ''/datasets'' no_config b)"

definition uploadDataset :: "adapter \<Rightarrow> (string \<times> string) list \<Rightarrow> browser \<Rightarrow> (axios_error + js_value) \<times> browser" where
  "uploadDataset srv formData b =
     response_data (client_post srv ''/datasets/upload'' (Some (FormData formData))
       \<lparr>cfg_headers = [''Content-Type'' \<mapsto> ''multipart/form-data''], cfg_timeout = Some 60000,
        cfg_responseType = None\<rparr> b)"

definition getDataset :: "adapter \<Rightarrow> int \<Rightarrow> browser \<Rightarrow> (axios_error + js_value) \<times> browser" where
  "getDataset srv datasetId b =
     response_data (client_get srv (''/datasets/'' @ number_to_string datasetId) no_config b)"

text \<open>\<^verbatim>\<open>previewDataset(datasetId, limit = 10)\<close>: \<open>None\<close> is the omitted argument.\<close>

definition previewDataset :: "adapter \<Rightarrow> int \<Rightarrow> int option \<Rightarrow> browser \<Rightarrow> (axios_error + js_value) \<times> browser" where
  "previewDataset srv datasetId limit b =
     response_data (client_get srv
       (''/datasets/'' @ number_to_string datasetId @ ''/preview?limit='' @
          number_to_string (case limit of None \<Rightarrow> 10 | Some l \<Rightarrow> l)) no_config b)"

definition deleteDataset :: "adapter \<Rightarrow> int \<Rightarrow> browser \<Rightarrow> (axios_error + js_value) \<times> browser" where
  "deleteDataset srv datasetId b =
     response_data (client_delete srv (''/datasets/'' @ number_to_string datasetId) b)"

definition validateDataset :: "adapter \<Rightarrow> int \<Rightarrow> browser \<Rightarrow> (axios_error + js_value) \<times> browser" where
  "validateDataset srv datasetId b =
     response_data (client_post srv (''/datasets/'' @ number_to_string datasetId @ ''/validate'') None no_config b)"

definition getDatasetStatistics :: "adapter \<Rightarrow> browser \<Rightarrow> (axios_error + js_value) \<times> browser" where
  "getDatasetStatistics srv b = response_data (client_get srv ''/datasets/statistics'' no_config b)"

definition createTask :: "adapter \<Rightarrow> js_value \<Rightarrow> browser \<Rightarrow> (axios_error + js_value) \<times> browser" where
  "createTask srv taskData b = response_data (client_post srv ''/tasks'' (Some (JsonBody taskData)) no_config b)"

definition getTasks :: "adapter \<Rightarrow> browser \<Rightarrow> (axios_error + js_value) \<times> browser" where
  "getTasks srv b = response_data (client_get srv ''/tasks'' no_config b)"

definition getTask :: "adapter \<Rightarrow> int \<Rightarrow> browser \<Rightarrow> (axios_error + js_value) \<times> browser" where
  "getTask srv taskId b = response_data (client_get srv (''/tasks/'' @ number_to_string taskId) no_config b)"

definition startTask :: "adapter \<Rightarrow> int \<Rightarrow> browser \<Rightarrow> (axios_error + js_value) \<times> browser" where
  "startTask srv taskId b =
     response_data (client_post srv (''/tasks/'' @ number_to_string taskId @ ''/start'') None no_config b)"

definition cancelTask :: "adapter \<Rightarrow> int \<Rightarrow> browser \<Rightarrow> (axios_error + js_value) \<times> browser" where
  "cancelTask srv taskId b =
     response_data (client_post srv (''/tasks/'' @ number_to_string taskId @ ''/cancel'') None no_config b)"

definition deleteTask :: "adapter \<Rightarrow> int \<Rightarrow> browser \<Rightarrow> (axios_error + js_value) \<times> browser" where
  "deleteTask srv taskId b = response_data (client_delete srv (''/tasks/'' @ number_to_string taskId) b)"

definition getRunningTasks :: "adapter \<Rightarrow> browser \<Rightarrow> (axios_error + js_value) \<times> browser" where
  "getRunningTasks srv b = response_data (client_get srv ''/tasks/running'' no_config b)"

definition getTaskStatistics :: "adapter \<Rightarrow> browser \<Rightarrow> (axios_error + js_value) \<times> browser" where
  "getTaskStatistics srv b = response_data (client_get srv ''/tasks/statistics'' no_config b)"

definition getTaskServiceStatus :: "adapter \<Rightarrow> browser \<Rightarrow> (axios_error + js_value) \<times> browser" where
  "getTaskServiceStatus srv b = response_data (client_get srv ''/tasks/service/status'' no_config b)"

definition getResults :: "adapter \<Rightarrow> browser \<Rightarrow> (axios_error + js_value) \<times> browser" where
  "getResults srv b = response_data (client_get srv ''/results'' no_config b)"

definition getResult :: "adapter \<Rightarrow> int \<Rightarrow> browser \<Rightarrow> (axios_error + js_value) \<times> browser" where
  "getResult srv resultId b = response_data (client_get srv (''/results/'' @ number_to_string resultId) no_config b)"

definition compareResults :: "adapter \<Rightarrow> int list \<Rightarrow> browser \<Rightarrow> (axios_error + js_value) \<times> browser" where
  "compareResults srv resultIds b =
     response_data (client_post srv ''/results/comparison''
       (Some (JsonBody (JObj [(''result_ids'', JArr (map (\<lambda>i. JNum (of_int i)) resultIds))]))) no_config b)"

text \<open>\<^verbatim>\<open>exportResult(resultId, format = 'csv')\<close>: \<open>None\<close> is the omitted argument.\<close>

definition exportResult :: "adapter \<Rightarrow> int \<Rightarrow> string option \<Rightarrow> browser \<Rightarrow> (axios_error + js_value) \<times> browser" where
  "exportResult srv resultId format b =
     response_data (client_get srv
       (''/results/'' @ number_to_string resultId @ ''/export?format='' @
          (case format of None \<Rightarrow> ''csv'' | Some f \<Rightarrow> f))
       \<lparr>cfg_headers = Map.empty, cfg_timeout = None, cfg_responseType = Some Blob\<rparr> b)"

definition deleteResult :: "adapter \<Rightarrow> int \<Rightarrow> browser \<Rightarrow> (axios_error + js_value) \<times> browser" where
  "deleteResult srv resultId b = response_data (client_delete srv (''/results/'' @ number_to_string resultId) b)"

definition getResultStatistics :: "adapter \<Rightarrow> browser \<Rightarrow> (axios_error + js_value) \<times> browser" where
  "getResultStatistics srv b = response_data (client_get srv ''/results/statistics'' no_config b)"

text \<open>A call of a public method with its arguments, and its execution.\<close>

datatype api_call =
    Login string string
  | GetProfile
  | GetAlgorithms
  | GetAlgorithmInfo string
  | GetAlgorithmParameters string
  | GetAlgorithmComparison
  | GetDatasets
  | UploadDataset "(string \<times> string) list"
  | GetDataset int
  | PreviewDataset int "int option"
  | DeleteDataset int
  | ValidateDataset int
  | GetDatasetStatistics
  | CreateTask js_value
  | GetTasks
  | GetTask int
  | StartTask int
  | CancelTask int
  | DeleteTask int
  | GetRunningTasks
  | GetTaskStatistics
  | GetTaskServiceStatus
  | GetResults
  | GetResult int
  | CompareResults "int list"
  | ExportResult int "string option"
  | DeleteResult int
  | GetResultStatistics

fun invoke :: "adapter \<Rightarrow> api_call \<Rightarrow> browser \<Rightarrow> (axios_error + js_value) \<times> browser" where
  "invoke srv (Login username password) = login srv username password"
| "invoke srv GetProfile = getProfile srv"
| "invoke srv GetAlgorithms = getAlgorithms srv"
| "invoke srv (GetAlgorithmInfo algorithmName) = getAlgorithmInfo srv algorithmName"
| "invoke srv (GetAlgorithmParameters algorithmName) = getAlgorithmParameters srv algorithmName"
| "invoke srv GetAlgorithmComparison = getAlgorithmComparison srv"
| "invoke srv GetDatasets = getDatasets srv"
| "invoke srv (UploadDataset formData) = uploadDataset srv formData"
| "invoke srv (GetDataset datasetId) = getDataset srv datasetId"
| "invoke srv (PreviewDataset datasetId limit) = previewDataset srv datasetId limit"
| "invoke srv (DeleteDataset datasetId) = deleteDataset srv datasetId"
| "invoke srv (ValidateDataset datasetId) = validateDataset srv datasetId"
| "invoke srv GetDatasetStatistics = getDatasetStatistics srv"
| "invoke srv (CreateTask taskData) = createTask srv taskData"
| "invoke srv GetTasks = getTasks srv"
| "invoke srv (GetTask taskId) = getTask srv taskId"
| "invoke srv (StartTask taskId) = startTask srv taskId"
| "invoke srv (CancelTask taskId) = cancelTask srv taskId"
| "invoke srv (DeleteTask taskId) = deleteTask srv taskId"
| "invoke srv GetRunningTasks = getRunningTasks srv"
| "invoke srv GetTaskStatistics = getTaskStatistics srv"
| "invoke srv GetTaskServiceStatus = getTaskServiceStatus srv"
| "invoke srv GetResults = getResults srv"
| "invoke srv (GetResult resultId) = getResult srv resultId"
| "invoke srv (CompareResults resultIds) = compareResults srv resultIds"
| "invoke srv (ExportResult resultId format) = exportResult srv resultId format"
| "invoke srv (DeleteResult resultId) = deleteResult srv resultId"
| "invoke srv GetResultStatistics = getResultStatistics srv"

text \<open>
  The REST surface the client consumes, as a table: the HTTP method and the path of each
  call. The methods above are compared with it.
\<close>

fun endpoint :: "api_call \<Rightarrow> http_method \<times> string" where
  "endpoint (Login username password) = (POST, ''/auth/login'')"
| "endpoint GetProfile = (GET, ''/auth/profile'')"
| "endpoint GetAlgorithms = (GET, ''/algorithms'')"
| "endpoint (GetAlgorithmInfo name) = (GET, ''/algorithms/'' @ name @ ''/info'')"
| "endpoint (GetAlgorithmParameters name) = (GET, ''/algorithms/'' @ name @ ''/parameters'')"
| "endpoint GetAlgorithmComparison = (GET, ''/algorithms/comparison'')"
| "endpoint GetDatasets = (GET, ''/datasets'')"
| "endpoint (UploadDataset formData) = (POST, ''/datasets/upload'')"
| "endpoint (GetDataset i) = (GET, ''/datasets/'' @ number_to_string i)"
| "endpoint (PreviewDataset i limit) =
     (GET, ''/datasets/'' @ number_to_string i @ ''/preview?limit='' @
           number_to_string (case limit of None \<Rightarrow> 10 | Some l \<Rightarrow> l))"
| "endpoint (DeleteDataset i) = (DELETE, ''/datasets/'' @ number_to_string i)"
| "endpoint (ValidateDataset i) = (POST, ''/datasets/'' @ number_to_string i @ ''/validate'')"
| "endpoint GetDatasetStatistics = (GET, ''/datasets/statistics'')"
| "endpoint (CreateTask taskData) = (POST, ''/tasks'')"
| "endpoint GetTasks = (GET, ''/tasks'')"
| "endpoint (GetTask i) = (GET, ''/tasks/'' @ number_to_string i)"
| "endpoint (StartTask i) = (POST, ''/tasks/'' @ number_to_string i @ ''/start'')"
| "endpoint (CancelTask i) = (POST, ''/tasks/'' @ number_to_string i @ ''/cancel'')"
| "endpoint (DeleteTask i) = (DELETE, ''/tasks/'' @ number_to_string i)"
| "endpoint GetRunningTasks = (GET, ''/tasks/running'')"
| "endpoint GetTaskStatistics = (GET, ''/tasks/statistics'')"
| "endpoint GetTaskServiceStatus = (GET, ''/tasks/service/status'')"
| "endpoint GetResults = (GET, ''/results'')"
| "endpoint (GetResult i) = (GET, ''/results/'' @ number_to_string i)"
| "endpoint (CompareResults ids) = (POST, ''/results/comparison'')"
| "endpoint (ExportResult i format) =
     (GET, ''/results/'' @ number_to_string i @ ''/export?format='' @
           (case format of None \<Rightarrow> ''csv'' | Some f \<Rightarrow> f))"
| "endpoint (DeleteResult i) = (DELETE, ''/results/'' @ number_to_string i)"
| "endpoint GetResultStatistics = (GET, ''/results/statistics'')"

subsection \<open>Concrete browsers and backends\<close>


definition logged_in_browser :: browser where
  "logged_in_browser =
     \<lparr>localStorage = [''access_token'' \<mapsto> ''abc''], location_href = ''/tasks'', network_log = []\<rparr>"

definition answer_with :: "nat \<Rightarrow> adapter" where
  "answer_with code req = Some \<lparr>status = code, data = JNull\<rparr>"


section \<open>The results page (\<^verbatim>\<open>app/results/page.tsx\<close>)\<close>

text \<open>
  A JavaScript number: a finite double is the rational it denotes. \<open>js_gt a b\<close> is
  \<^verbatim>\<open>a > b\<close>, false whenever an operand is NaN.
\<close>

datatype js_number = NaN | PosInfinity | NegInfinity | Finite rat

fun js_gt :: "js_number \<Rightarrow> js_number \<Rightarrow> bool" where
  "js_gt NaN b = False"
| "js_gt a NaN = False"
| "js_gt a PosInfinity = False"
| "js_gt PosInfinity b = True"
| "js_gt NegInfinity b = False"
| "js_gt (Finite x) NegInfinity = True"
| "js_gt (Finite x) (Finite y) = (y < x)"

text \<open>The doubles that the literals \<^verbatim>\<open>0.7\<close>, \<^verbatim>\<open>0.3\<close> and \<^verbatim>\<open>0.1\<close> denote.\<close>

definition lit_0_7 :: js_number where
  "lit_0_7 = Finite (3152519739159347 / 2 ^ 52)"

definition lit_0_3 :: js_number where
  "lit_0_3 = Finite (5404319552844595 / 2 ^ 54)"

definition lit_0_1 :: js_number where
  "lit_0_1 = Finite (3602879701896397 / 2 ^ 55)"

definition label_excellent :: string where
  \<comment> \<open>results/page.tsx, getQualityStatus: U+4F18 U+79C0\<close>
  "label_excellent = [CHR 0xE4, CHR 0xBC, CHR 0x98, CHR 0xE7, CHR 0xA7, CHR 0x80]"

definition label_good :: string where
  \<comment> \<open>results/page.tsx, getQualityStatus: U+826F U+597D\<close>
  "label_good = [CHR 0xE8, CHR 0x89, CHR 0xAF, CHR 0xE5, CHR 0xA5, CHR 0xBD]"

definition label_fair :: string where
  \<comment> \<open>results/page.tsx, getQualityStatus: U+4E00 U+822C\<close>
  "label_fair = [CHR 0xE4, CHR 0xB8, CHR 0x80, CHR 0xE8, CHR 0x88, CHR 0xAC]"

definition label_poor :: string where
  \<comment> \<open>results/page.tsx, getQualityStatus: U+8F83 U+5DEE\<close>
  "label_poor = [CHR 0xE8, CHR 0xBE, CHR 0x83, CHR 0xE5, CHR 0xB7, CHR 0xAE]"

definition getQualityColor :: "js_number \<Rightarrow> string" where
  "getQualityColor score =
     (if js_gt score lit_0_7 then ''success''
      else if js_gt score lit_0_3 then ''processing''
      else if js_gt score lit_0_1 then ''warning''
      else ''error'')"

definition getQualityStatus :: "js_number \<Rightarrow> string" where
  "getQualityStatus score =
     (if js_gt score lit_0_7 then label_excellent
      else if js_gt score lit_0_3 then label_good
      else if js_gt score lit_0_1 then label_fair
      else label_poor)"


section \<open>Status tags (\<^verbatim>\<open>getStatusConfig\<close> of the task page, the dashboard's status column)\<close>

definition text_pending :: string where
  \<comment> \<open>status tables: U+5F85 U+5904 U+7406\<close>
  "text_pending = [CHR 0xE5, CHR 0xBE, CHR 0x85, CHR 0xE5, CHR 0xA4, CHR 0x84, CHR 0xE7,
     CHR 0x90, CHR 0x86]"

definition text_running :: string where
  \<comment> \<open>status tables: U+8FD0 U+884C U+4E2D\<close>
  "text_running = [CHR 0xE8, CHR 0xBF, CHR 0x90, CHR 0xE8, CHR 0xA1, CHR 0x8C, CHR 0xE4,
     CHR 0xB8, CHR 0xAD]"

definition text_completed :: string where
  \<comment> \<open>status tables: U+5DF2 U+5B8C U+6210\<close>
  "text_completed = [CHR 0xE5, CHR 0xB7, CHR 0xB2, CHR 0xE5, CHR 0xAE, CHR 0x8C, CHR 0xE6,
     CHR 0x88, CHR 0x90]"

definition text_failed :: string where
  \<comment> \<open>status tables: U+5931 U+8D25\<close>
  "text_failed = [CHR 0xE5, CHR 0xA4, CHR 0xB1, CHR 0xE8, CHR 0xB4, CHR 0xA5]"

definition text_cancelled :: string where
  \<comment> \<open>status tables: U+5DF2 U+53D6 U+6D88\<close>
  "text_cancelled = [CHR 0xE5, CHR 0xB7, CHR 0xB2, CHR 0xE5, CHR 0x8F, CHR 0x96, CHR 0xE6,
     CHR 0xB6, CHR 0x88]"

text \<open>
  Both tables are object literals indexed with the status string (\<open>st\<close> below):
  \<^verbatim>\<open>configs[status] || { color: 'default', text: status, icon: null }\<close>.
  A property read on an object literal finds the literal's own properties first and then
  those of \<^verbatim>\<open>Object.prototype\<close>, every one of which is a function or an object and
  so truthy.
\<close>

definition object_prototype_properties :: "string list" where
  "object_prototype_properties =
     [''constructor'', ''__defineGetter__'', ''__defineSetter__'', ''hasOwnProperty'',
      ''__lookupGetter__'', ''__lookupSetter__'', ''isPrototypeOf'', ''propertyIsEnumerable'',
      ''toString'', ''valueOf'', ''__proto__'', ''toLocaleString'']"

text \<open>
  What a read yields when it is truthy: an entry of the literal, or the member of
  \<^verbatim>\<open>Object.prototype\<close> of that name.
\<close>

datatype 'a found = Entry 'a | Builtin string

definition object_get :: "(string \<times> 'a) list \<Rightarrow> string \<Rightarrow> 'a found option" where
  "object_get literal key =
     (case map_of literal key of
        Some v \<Rightarrow> Some (Entry v)
      | None \<Rightarrow> if key \<in> set object_prototype_properties then Some (Builtin key) else None)"

datatype icon =
    ClockCircleOutlined
  | PlayCircleOutlined
  | CheckCircleOutlined
  | ExclamationCircleOutlined
  | PauseCircleOutlined

text \<open>An entry of a table; \<open>text'\<close> is the source's \<^verbatim>\<open>text\<close>.\<close>

record tag_config =
  color :: string
  text' :: string

record status_config = tag_config +
  icon :: "icon option"

definition configs :: "(string \<times> status_config) list" where
  "configs =
     [(''pending'', \<lparr>color = ''orange'', text' = text_pending, icon = Some ClockCircleOutlined\<rparr>),
      (''running'', \<lparr>color = ''green'', text' = text_running, icon = Some PlayCircleOutlined\<rparr>),
      (''completed'', \<lparr>color = ''blue'', text' = text_completed, icon = Some CheckCircleOutlined\<rparr>),
      (''failed'', \<lparr>color = ''red'', text' = text_failed, icon = Some ExclamationCircleOutlined\<rparr>),
      (''cancelled'', \<lparr>color = ''default'', text' = text_cancelled, icon = Some PauseCircleOutlined\<rparr>)]"

definition getStatusConfig :: "string \<Rightarrow> status_config found" where
  "getStatusConfig st =
     (case object_get configs st of
        Some v \<Rightarrow> v
      | None \<Rightarrow> Entry \<lparr>color = ''default'', text' = st, icon = None\<rparr>)"

text \<open>
  The tag a status is rendered as: \<^verbatim>\<open>config.color\<close> and \<^verbatim>\<open>config.text\<close>,
  which are undefined (\<open>None\<close>) on a member of \<^verbatim>\<open>Object.prototype\<close>.
\<close>

record tag =
  tag_color :: "string option"
  tag_text :: "string option"

fun render_tag :: "('a tag_config_scheme) found \<Rightarrow> tag" where
  "render_tag (Entry config) = \<lparr>tag_color = Some (color config), tag_text = Some (text' config)\<rparr>"
| "render_tag (Builtin name) = \<lparr>tag_color = None, tag_text = None\<rparr>"

definition render_task_status :: "string \<Rightarrow> tag" where
  "render_task_status st = render_tag (getStatusConfig st)"

text \<open>The dashboard's column (\<^verbatim>\<open>taskColumns\<close>, \<^verbatim>\<open>render\<close> of \<^verbatim>\<open>status\<close>).\<close>

definition statusConfig :: "(string \<times> tag_config) list" where
  "statusConfig =
     [(''pending'', \<lparr>color = ''orange'', text' = text_pending\<rparr>),
      (''running'', \<lparr>color = ''green'', text' = text_running\<rparr>),
      (''completed'', \<lparr>color = ''blue'', text' = text_completed\<rparr>),
      (''failed'', \<lparr>color = ''red'', text' = text_failed\<rparr>),
      (''cancelled'', \<lparr>color = ''default'', text' = text_cancelled\<rparr>)]"

definition render_dashboard_status :: "string \<Rightarrow> tag" where
  "render_dashboard_status st =
     render_tag (case object_get statusConfig st of
                   Some v \<Rightarrow> v
                 | None \<Rightarrow> Entry \<lparr>color = ''default'', text' = st\<rparr>)"

section \<open>The size formatter of the dataset page (\<^verbatim>\<open>formatFileSize\<close>, \<^verbatim>\<open>app/page.tsx\<close>)\<close>

text \<open>
  \<^verbatim>\<open>if (bytes === 0) return '0 B';
  const k = 1024; const sizes = ['B', 'KB', 'MB', 'GB'];
  const i = Math.floor(Math.log(bytes) / Math.log(k));
  return parseFloat((bytes / Math.pow(k, i)).toFixed(2)) + ' ' + sizes[i];\<close>

  The arithmetic is that of doubles. A finite double is the number it denotes, and the
  quotient of two doubles is the double nearest to the exact quotient, ties to the even
  significand: for a nonzero \<open>x\<close> with \<open>2^e \<le> |x| < 2^(e+1)\<close> the doubles around \<open>x\<close> are
  the multiples of \<open>2^(e-52)\<close> (overflow and underflow do not arise for quotients of
  logarithms of doubles).
\<close>

definition round_half_even :: "real \<Rightarrow> int" where
  "round_half_even t =
     (if t - of_int \<lfloor>t\<rfloor> < 1 / 2 then \<lfloor>t\<rfloor>
      else if 1 / 2 < t - of_int \<lfloor>t\<rfloor> then \<lfloor>t\<rfloor> + 1
      else if even \<lfloor>t\<rfloor> then \<lfloor>t\<rfloor> else \<lfloor>t\<rfloor> + 1)"

definition round_double :: "real \<Rightarrow> real" where
  "round_double x =
     (if x = 0 then 0
      else sgn x * of_int (round_half_even (\<bar>x\<bar> / 2 powi (\<lfloor>log 2 \<bar>x\<bar>\<rfloor> - 52))) *
           2 powi (\<lfloor>log 2 \<bar>x\<bar>\<rfloor> - 52))"

definition sizes :: "string list" where
  "sizes = [''B'', ''KB'', ''MB'', ''GB'']"

text \<open>
  \<^verbatim>\<open>' ' + sizes[i]\<close> for an integer \<open>i\<close>: outside the array the element is undefined,
  which the concatenation prints as \<^verbatim>\<open>undefined\<close>.
\<close>

definition sizes_at :: "int \<Rightarrow> string" where
  "sizes_at i = (if 0 \<le> i \<and> i < int (length sizes) then sizes ! nat i else ''undefined'')"

text \<open>
  \<^verbatim>\<open>y.toFixed(2)\<close> for \<open>y \<ge> 0\<close>: the number of hundredths nearest to \<open>y\<close>, the larger
  one on a tie. \<^verbatim>\<open>parseFloat\<close> of that string, printed again by the concatenation, is the
  same decimal without trailing zeros (for values below \<open>10^15\<close>, which have at most 17
  significant digits; here \<open>y\<close> is below 1024 whenever \<open>i\<close> is the integer logarithm).
\<close>

definition toFixed2 :: "real \<Rightarrow> nat" where
  "toFixed2 y = nat \<lfloor>y * 100 + 1 / 2\<rfloor>"

definition hundredths_to_string :: "nat \<Rightarrow> string" where
  "hundredths_to_string n =
     nat_to_string (n div 100) @
     (if n mod 100 = 0 then ''''
      else ''.'' @ [''0123456789'' ! (n mod 100 div 10)] @
           (if n mod 10 = 0 then '''' else [''0123456789'' ! (n mod 10)]))"

text \<open>
  \<^verbatim>\<open>Math.log\<close> is approximated by the implementation, so it is a parameter, applied to
  positive finite arguments only: by the language definition the logarithm of a negative
  number and of NaN is NaN, and that of infinity is infinity, and all of these end in
  \<^verbatim>\<open>NaN undefined\<close>. \<^verbatim>\<open>Math.pow(1024, i)\<close> is the exact power and the division by it
  is exact, as they are for doubles in the normal range. A logarithm of 1024 that is zero
  makes the quotient infinite or NaN; the three branches are what the remaining statements
  then compute.
\<close>

definition formatFileSize :: "(real \<Rightarrow> real) \<Rightarrow> js_number \<Rightarrow> string" where
  "formatFileSize Math_log bytes =
     (case bytes of
        Finite x \<Rightarrow>
          if x = 0 then ''0 B''
          else if x < 0 then ''NaN undefined''
          else if Math_log 1024 = 0 then
            (if 0 < Math_log (of_rat x) then ''0 undefined''
             else if Math_log (of_rat x) < 0 then ''Infinity undefined''
             else ''NaN undefined'')
          else
            (let i = \<lfloor>round_double (Math_log (of_rat x) / Math_log 1024)\<rfloor>
             in hundredths_to_string (toFixed2 (of_rat x / 1024 powi i)) @ '' '' @ sizes_at i)
      | _ \<Rightarrow> ''NaN undefined'')"

text \<open>
  An implementation of \<^verbatim>\<open>Math.log\<close> whose relative error on arguments from 1 upwards is
  at most \<open>2^-50\<close>, four times what rounding the exact logarithm to a double allows.
\<close>

definition accurate_log :: "(real \<Rightarrow> real) \<Rightarrow> bool" where
  "accurate_log Math_log \<longleftrightarrow> (\<forall>x\<ge>1. \<bar>Math_log x - ln x\<bar> \<le> ln x / 2 ^ 50)"


section \<open>The pages\<close>

text \<open>
  Every page handler is an \<^verbatim>\<open>async\<close> function of the shape
  \<^verbatim>\<open>try { ...; await <calls>; ... } catch (error) { ... } finally { ... }\<close>.
  It is modelled in two halves: \<open>before_await\<close> is what runs up to the \<^verbatim>\<open>await\<close> (the
  effects, and the calls whose promises are awaited; no call when the handler returns
  early), and \<open>after_await\<close> is what runs once the awaited promise has settled. A resolved
  body is taken to be a JSON object of the shape the page expects, so that the statements
  after the \<^verbatim>\<open>await\<close> do not throw.
\<close>

definition msg_dashboard_failed :: string where
  \<comment> \<open>page.tsx, Dashboard.fetchDashboardData: U+83B7 U+53D6 U+4EEA U+8868 U+677F U+6570 U+636E U+5931 U+8D25\<close>
  "msg_dashboard_failed = [CHR 0xE8, CHR 0x8E, CHR 0xB7, CHR 0xE5, CHR 0x8F, CHR 0x96,
     CHR 0xE4, CHR 0xBB, CHR 0xAA, CHR 0xE8, CHR 0xA1, CHR 0xA8, CHR 0xE6, CHR 0x9D, CHR 0xBF,
     CHR 0xE6, CHR 0x95, CHR 0xB0, CHR 0xE6, CHR 0x8D, CHR 0xAE, CHR 0xE5, CHR 0xA4, CHR 0xB1,
     CHR 0xE8, CHR 0xB4, CHR 0xA5]"

definition msg_fetch_datasets_failed :: string where
  \<comment> \<open>page.tsx, DatasetsPage.fetchDatasets: U+83B7 U+53D6 U+6570 U+636E U+96C6 U+5217 U+8868 U+5931 U+8D25\<close>
  "msg_fetch_datasets_failed = [CHR 0xE8, CHR 0x8E, CHR 0xB7, CHR 0xE5, CHR 0x8F, CHR 0x96,
     CHR 0xE6, CHR 0x95, CHR 0xB0, CHR 0xE6, CHR 0x8D, CHR 0xAE, CHR 0xE9, CHR 0x9B, CHR 0x86,
     CHR 0xE5, CHR 0x88, CHR 0x97, CHR 0xE8, CHR 0xA1, CHR 0xA8, CHR 0xE5, CHR 0xA4, CHR 0xB1,
     CHR 0xE8, CHR 0xB4, CHR 0xA5]"

definition msg_statistics_failed :: string where
  \<comment> \<open>fetchStatistics of the three pages: U+83B7 U+53D6 U+7EDF U+8BA1 U+4FE1 U+606F U+5931 U+8D25 U+003A\<close>
  "msg_statistics_failed = [CHR 0xE8, CHR 0x8E, CHR 0xB7, CHR 0xE5, CHR 0x8F, CHR 0x96,
     CHR 0xE7, CHR 0xBB, CHR 0x9F, CHR 0xE8, CHR 0xAE, CHR 0xA1, CHR 0xE4, CHR 0xBF, CHR 0xA1,
     CHR 0xE6, CHR 0x81, CHR 0xAF, CHR 0xE5, CHR 0xA4, CHR 0xB1, CHR 0xE8, CHR 0xB4, CHR 0xA5,
     CHR 0x3A]"

definition msg_choose_file :: string where
  \<comment> \<open>page.tsx, DatasetsPage.handleUpload: U+8BF7 U+9009 U+62E9 U+6587 U+4EF6\<close>
  "msg_choose_file = [CHR 0xE8, CHR 0xAF, CHR 0xB7, CHR 0xE9, CHR 0x80, CHR 0x89, CHR 0xE6,
     CHR 0x8B, CHR 0xA9, CHR 0xE6, CHR 0x96, CHR 0x87, CHR 0xE4, CHR 0xBB, CHR 0xB6]"

definition msg_upload_succeeded :: string where
  \<comment> \<open>page.tsx, DatasetsPage.handleUpload: U+6570 U+636E U+96C6 U+4E0A U+4F20 U+6210 U+529F\<close>
  "msg_upload_succeeded = [CHR 0xE6, CHR 0x95, CHR 0xB0, CHR 0xE6, CHR 0x8D, CHR 0xAE,
     CHR 0xE9, CHR 0x9B, CHR 0x86, CHR 0xE4, CHR 0xB8, CHR 0x8A, CHR 0xE4, CHR 0xBC, CHR 0xA0,
     CHR 0xE6, CHR 0x88, CHR 0x90, CHR 0xE5, CHR 0x8A, CHR 0x9F]"

definition msg_upload_failed :: string where
  \<comment> \<open>page.tsx, DatasetsPage.handleUpload: U+4E0A U+4F20 U+5931 U+8D25\<close>
  "msg_upload_failed = [CHR 0xE4, CHR 0xB8, CHR 0x8A, CHR 0xE4, CHR 0xBC, CHR 0xA0, CHR 0xE5,
     CHR 0xA4, CHR 0xB1, CHR 0xE8, CHR 0xB4, CHR 0xA5]"

definition msg_delete_succeeded :: string where
  \<comment> \<open>handleDelete, handleDeleteTask: U+5220 U+9664 U+6210 U+529F\<close>
  "msg_delete_succeeded = [CHR 0xE5, CHR 0x88, CHR 0xA0, CHR 0xE9, CHR 0x99, CHR 0xA4,
     CHR 0xE6, CHR 0x88, CHR 0x90, CHR 0xE5, CHR 0x8A, CHR 0x9F]"

definition msg_delete_failed :: string where
  \<comment> \<open>handleDelete, handleDeleteTask: U+5220 U+9664 U+5931 U+8D25\<close>
  "msg_delete_failed = [CHR 0xE5, CHR 0x88, CHR 0xA0, CHR 0xE9, CHR 0x99, CHR 0xA4, CHR 0xE5,
     CHR 0xA4, CHR 0xB1, CHR 0xE8, CHR 0xB4, CHR 0xA5]"

definition msg_preview_failed :: string where
  \<comment> \<open>page.tsx, DatasetsPage.handlePreview: U+9884 U+89C8 U+5931 U+8D25\<close>
  "msg_preview_failed = [CHR 0xE9, CHR 0xA2, CHR 0x84, CHR 0xE8, CHR 0xA7, CHR 0x88, CHR 0xE5,
     CHR 0xA4, CHR 0xB1, CHR 0xE8, CHR 0xB4, CHR 0xA5]"

definition msg_fetch_tasks_failed :: string where
  \<comment> \<open>TasksPage.fetchTasks: U+83B7 U+53D6 U+4EFB U+52A1 U+5217 U+8868 U+5931 U+8D25\<close>
  "msg_fetch_tasks_failed = [CHR 0xE8, CHR 0x8E, CHR 0xB7, CHR 0xE5, CHR 0x8F, CHR 0x96,
     CHR 0xE4, CHR 0xBB, CHR 0xBB, CHR 0xE5, CHR 0x8A, CHR 0xA1, CHR 0xE5, CHR 0x88, CHR 0x97,
     CHR 0xE8, CHR 0xA1, CHR 0xA8, CHR 0xE5, CHR 0xA4, CHR 0xB1, CHR 0xE8, CHR 0xB4, CHR 0xA5]"

definition msg_start_succeeded :: string where
  \<comment> \<open>TasksPage.handleStartTask: U+4EFB U+52A1 U+542F U+52A8 U+6210 U+529F\<close>
  "msg_start_succeeded = [CHR 0xE4, CHR 0xBB, CHR 0xBB, CHR 0xE5, CHR 0x8A, CHR 0xA1, CHR 0xE5,
     CHR 0x90, CHR 0xAF, CHR 0xE5, CHR 0x8A, CHR 0xA8, CHR 0xE6, CHR 0x88, CHR 0x90, CHR 0xE5,
     CHR 0x8A, CHR 0x9F]"

definition msg_start_failed :: string where
  \<comment> \<open>TasksPage.handleStartTask: U+542F U+52A8 U+4EFB U+52A1 U+5931 U+8D25\<close>
  "msg_start_failed = [CHR 0xE5, CHR 0x90, CHR 0xAF, CHR 0xE5, CHR 0x8A, CHR 0xA8, CHR 0xE4,
     CHR 0xBB, CHR 0xBB, CHR 0xE5, CHR 0x8A, CHR 0xA1, CHR 0xE5, CHR 0xA4, CHR 0xB1, CHR 0xE8,
     CHR 0xB4, CHR 0xA5]"

definition msg_cancel_succeeded :: string where
  \<comment> \<open>TasksPage.handleCancelTask: U+4EFB U+52A1 U+53D6 U+6D88 U+6210 U+529F\<close>
  "msg_cancel_succeeded = [CHR 0xE4, CHR 0xBB, CHR 0xBB, CHR 0xE5, CHR 0x8A, CHR 0xA1,
     CHR 0xE5, CHR 0x8F, CHR 0x96, CHR 0xE6, CHR 0xB6, CHR 0x88, CHR 0xE6, CHR 0x88, CHR 0x90,
     CHR 0xE5, CHR 0x8A, CHR 0x9F]"

definition msg_cancel_failed :: string where
  \<comment> \<open>TasksPage.handleCancelTask: U+53D6 U+6D88 U+4EFB U+52A1 U+5931 U+8D25\<close>
  "msg_cancel_failed = [CHR 0xE5, CHR 0x8F, CHR 0x96, CHR 0xE6, CHR 0xB6, CHR 0x88, CHR 0xE4,
     CHR 0xBB, CHR 0xBB, CHR 0xE5, CHR 0x8A, CHR 0xA1, CHR 0xE5, CHR 0xA4, CHR 0xB1, CHR 0xE8,
     CHR 0xB4, CHR 0xA5]"

definition msg_task_details_failed :: string where
  \<comment> \<open>TasksPage.handleViewDetails: U+83B7 U+53D6 U+4EFB U+52A1 U+8BE6 U+60C5 U+5931 U+8D25\<close>
  "msg_task_details_failed = [CHR 0xE8, CHR 0x8E, CHR 0xB7, CHR 0xE5, CHR 0x8F, CHR 0x96,
     CHR 0xE4, CHR 0xBB, CHR 0xBB, CHR 0xE5, CHR 0x8A, CHR 0xA1, CHR 0xE8, CHR 0xAF, CHR 0xA6,
     CHR 0xE6, CHR 0x83, CHR 0x85, CHR 0xE5, CHR 0xA4, CHR 0xB1, CHR 0xE8, CHR 0xB4, CHR 0xA5]"

definition msg_fetch_results_failed :: string where
  \<comment> \<open>results/page.tsx, fetchResults: U+83B7 U+53D6 U+7ED3 U+679C U+5217 U+8868 U+5931 U+8D25\<close>
  "msg_fetch_results_failed = [CHR 0xE8, CHR 0x8E, CHR 0xB7, CHR 0xE5, CHR 0x8F, CHR 0x96,
     CHR 0xE7, CHR 0xBB, CHR 0x93, CHR 0xE6, CHR 0x9E, CHR 0x9C, CHR 0xE5, CHR 0x88, CHR 0x97,
     CHR 0xE8, CHR 0xA1, CHR 0xA8, CHR 0xE5, CHR 0xA4, CHR 0xB1, CHR 0xE8, CHR 0xB4, CHR 0xA5]"

definition msg_export_succeeded :: string where
  \<comment> \<open>results/page.tsx, handleExport: U+5BFC U+51FA U+6210 U+529F\<close>
  "msg_export_succeeded = [CHR 0xE5, CHR 0xAF, CHR 0xBC, CHR 0xE5, CHR 0x87, CHR 0xBA,
     CHR 0xE6, CHR 0x88, CHR 0x90, CHR 0xE5, CHR 0x8A, CHR 0x9F]"

definition msg_export_failed :: string where
  \<comment> \<open>results/page.tsx, handleExport: U+5BFC U+51FA U+5931 U+8D25\<close>
  "msg_export_failed = [CHR 0xE5, CHR 0xAF, CHR 0xBC, CHR 0xE5, CHR 0x87, CHR 0xBA, CHR 0xE5,
     CHR 0xA4, CHR 0xB1, CHR 0xE8, CHR 0xB4, CHR 0xA5]"

definition msg_fetch_data_failed :: string where
  \<comment> \<open>AnalysisPage.fetchInitialData: U+83B7 U+53D6 U+6570 U+636E U+5931 U+8D25\<close>
  "msg_fetch_data_failed = [CHR 0xE8, CHR 0x8E, CHR 0xB7, CHR 0xE5, CHR 0x8F, CHR 0x96,
     CHR 0xE6, CHR 0x95, CHR 0xB0, CHR 0xE6, CHR 0x8D, CHR 0xAE, CHR 0xE5, CHR 0xA4, CHR 0xB1,
     CHR 0xE8, CHR 0xB4, CHR 0xA5]"

definition msg_algorithm_details_failed :: string where
  \<comment> \<open>AnalysisPage.fetchAlgorithmDetails: U+83B7 U+53D6 U+7B97 U+6CD5 U+8BE6 U+60C5 U+5931 U+8D25\<close>
  "msg_algorithm_details_failed = [CHR 0xE8, CHR 0x8E, CHR 0xB7, CHR 0xE5, CHR 0x8F, CHR 0x96,
     CHR 0xE7, CHR 0xAE, CHR 0x97, CHR 0xE6, CHR 0xB3, CHR 0x95, CHR 0xE8, CHR 0xAF, CHR 0xA6,
     CHR 0xE6, CHR 0x83, CHR 0x85, CHR 0xE5, CHR 0xA4, CHR 0xB1, CHR 0xE8, CHR 0xB4, CHR 0xA5]"

definition msg_task_created :: string where
  \<comment> \<open>AnalysisPage.handleSubmitTask: U+4EFB U+52A1 U+521B U+5EFA U+6210 U+529F\<close>
  "msg_task_created = [CHR 0xE4, CHR 0xBB, CHR 0xBB, CHR 0xE5, CHR 0x8A, CHR 0xA1, CHR 0xE5,
     CHR 0x88, CHR 0x9B, CHR 0xE5, CHR 0xBB, CHR 0xBA, CHR 0xE6, CHR 0x88, CHR 0x90, CHR 0xE5,
     CHR 0x8A, CHR 0x9F]"

definition msg_create_task_failed :: string where
  \<comment> \<open>AnalysisPage.handleSubmitTask: U+521B U+5EFA U+4EFB U+52A1 U+5931 U+8D25\<close>
  "msg_create_task_failed = [CHR 0xE5, CHR 0x88, CHR 0x9B, CHR 0xE5, CHR 0xBB, CHR 0xBA,
     CHR 0xE4, CHR 0xBB, CHR 0xBB, CHR 0xE5, CHR 0x8A, CHR 0xA1, CHR 0xE5, CHR 0xA4, CHR 0xB1,
     CHR 0xE8, CHR 0xB4, CHR 0xA5]"

definition msg_login_succeeded :: string where
  \<comment> \<open>login/page.tsx, onFinish: U+767B U+5F55 U+6210 U+529F\<close>
  "msg_login_succeeded = [CHR 0xE7, CHR 0x99, CHR 0xBB, CHR 0xE5, CHR 0xBD, CHR 0x95, CHR 0xE6,
     CHR 0x88, CHR 0x90, CHR 0xE5, CHR 0x8A, CHR 0x9F]"

definition msg_login_failed :: string where
  \<comment> \<open>login/page.tsx, onFinish: U+767B U+5F55 U+5931 U+8D25\<close>
  "msg_login_failed = [CHR 0xE7, CHR 0x99, CHR 0xBB, CHR 0xE5, CHR 0xBD, CHR 0x95, CHR 0xE5,
     CHR 0xA4, CHR 0xB1, CHR 0xE8, CHR 0xB4, CHR 0xA5]"

text \<open>
  What a handler awaits: a method of the client, or \<^verbatim>\<open>login\<close> of the authentication
  context (the login page; the context is outside these sources and is awaited as one
  operation).
\<close>

datatype awaited = ApiCall api_call | AuthLogin string string

text \<open>The form values of the upload dialog (\<open>file'\<close> is the source's \<^verbatim>\<open>file\<close>); \<open>[]\<close> is an
  absent or empty file list.\<close>

record upload_values =
  file' :: "string list"
  name :: string
  description :: string

datatype handler =
    Dashboard_fetchDashboardData
  | Datasets_fetchDatasets
  | Datasets_fetchStatistics
  | Datasets_handleUpload upload_values
  | Datasets_handleDelete int
  | Datasets_handlePreview int
  | Tasks_fetchTasks
  | Tasks_fetchStatistics
  | Tasks_handleStartTask int
  | Tasks_handleCancelTask int
  | Tasks_handleDeleteTask int
  | Tasks_handleViewDetails int
  | Results_fetchResults
  | Results_fetchStatistics
  | Results_handleExport int "string option"
  | Analysis_fetchInitialData
  | Analysis_fetchAlgorithmDetails string
  | Analysis_handleSubmitTask "(string \<times> js_value) list" string
  | Login_onFinish string string

text \<open>
  What a handler does besides calling the backend: a toast (\<^verbatim>\<open>message.success\<close>,
  \<^verbatim>\<open>message.error\<close>), a line on the console, a state update, a call of another
  handler that is not awaited, a navigation, a file download, a form reset.
\<close>

datatype toast_kind = Success | Error

datatype effect =
    Toast toast_kind js_value
  | ConsoleError string
  | SetLoading bool
  | SetState string
  | Start handler
  | RouterPush string
  | Download string
  | ResetFields

text \<open>\<^verbatim>\<open>error?.response?.data?.message\<close>\<close>

definition error_message :: "axios_error \<Rightarrow> js_value" where
  "error_message error =
     (case response error of None \<Rightarrow> JUndefined | Some r \<Rightarrow> opt_prop (data r) ''message'')"

text \<open>\<^verbatim>\<open>{ ...values, algorithm_name: selectedAlgorithm }\<close>\<close>

fun with_property :: "(string \<times> js_value) list \<Rightarrow> string \<Rightarrow> js_value \<Rightarrow> (string \<times> js_value) list" where
  "with_property [] k v = [(k, v)]"
| "with_property ((k', v') # kvs) k v =
     (if k' = k then (k, v) # kvs else (k', v') # with_property kvs k v)"

fun before_await :: "handler \<Rightarrow> effect list \<times> awaited list" where
  "before_await Dashboard_fetchDashboardData =
     ([SetLoading True],
      [ApiCall GetDatasetStatistics, ApiCall GetTasks, ApiCall GetResults, ApiCall GetRunningTasks,
       ApiCall GetTaskStatistics, ApiCall GetResultStatistics])"
| "before_await Datasets_fetchDatasets = ([SetLoading True], [ApiCall GetDatasets])"
| "before_await Datasets_fetchStatistics = ([], [ApiCall GetDatasetStatistics])"
| "before_await (Datasets_handleUpload values) =
     (if file' values = [] then ([Toast Error (JStr msg_choose_file)], [])
      else ([], [ApiCall (UploadDataset
                  ([(''file'', hd (file' values)), (''name'', name values)] @
                   (if description values \<noteq> [] then [(''description'', description values)] else [])))]))"
| "before_await (Datasets_handleDelete i) = ([], [ApiCall (DeleteDataset i)])"
| "before_await (Datasets_handlePreview i) = ([], [ApiCall (PreviewDataset i (Some 10))])"
| "before_await Tasks_fetchTasks = ([], [ApiCall GetTasks])"
| "before_await Tasks_fetchStatistics = ([], [ApiCall GetTaskStatistics])"
| "before_await (Tasks_handleStartTask taskId) = ([], [ApiCall (StartTask taskId)])"
| "before_await (Tasks_handleCancelTask taskId) = ([], [ApiCall (CancelTask taskId)])"
| "before_await (Tasks_handleDeleteTask taskId) = ([], [ApiCall (DeleteTask taskId)])"
| "before_await (Tasks_handleViewDetails taskId) = ([], [ApiCall (GetTask taskId)])"
| "before_await Results_fetchResults = ([SetLoading True], [ApiCall GetResults])"
| "before_await Results_fetchStatistics = ([], [ApiCall GetResultStatistics])"
| "before_await (Results_handleExport resultId format) =
     ([], [ApiCall (ExportResult resultId (Some (case format of None \<Rightarrow> ''csv'' | Some f \<Rightarrow> f)))])"
| "before_await Analysis_fetchInitialData = ([], [ApiCall GetDatasets, ApiCall GetAlgorithms])"
| "before_await (Analysis_fetchAlgorithmDetails algorithmName) = ([], [ApiCall (GetAlgorithmInfo algorithmName)])"
| "before_await (Analysis_handleSubmitTask values selectedAlgorithm) =
     ([SetLoading True],
      [ApiCall (CreateTask (JObj (with_property values ''algorithm_name'' (JStr selectedAlgorithm))))])"
| "before_await (Login_onFinish username password) = ([SetLoading True], [AuthLogin username password])"

text \<open>
  After the \<^verbatim>\<open>await\<close>: \<open>Inr\<close> carries the resolved bodies, one for each awaited call,
  and \<open>Inl\<close> the error the awaited promise rejected with. The \<^verbatim>\<open>finally\<close> block, where
  there is one, is the last effect of both branches.
\<close>

fun after_await :: "handler \<Rightarrow> axios_error + js_value list \<Rightarrow> effect list" where
  "after_await Dashboard_fetchDashboardData (Inr bodies) =
     [SetState ''data'', SetState ''error'', SetLoading False]"
| "after_await Dashboard_fetchDashboardData (Inl err) =
     [SetState ''error'', ConsoleError ''Dashboard data fetch error:'', SetLoading False]"
| "after_await Datasets_fetchDatasets (Inr bodies) = [SetState ''datasets'', SetLoading False]"
| "after_await Datasets_fetchDatasets (Inl err) =
     [Toast Error (JStr msg_fetch_datasets_failed), SetLoading False]"
| "after_await Datasets_fetchStatistics (Inr bodies) = [SetState ''statistics'']"
| "after_await Datasets_fetchStatistics (Inl err) = [ConsoleError msg_statistics_failed]"
| "after_await (Datasets_handleUpload values) (Inr bodies) =
     [Toast Success (JStr msg_upload_succeeded), SetState ''uploadModalVisible'', ResetFields,
      Start Datasets_fetchDatasets, Start Datasets_fetchStatistics]"
| "after_await (Datasets_handleUpload values) (Inl err) =
     [Toast Error (or_else (error_message err) (JStr msg_upload_failed))]"
| "after_await (Datasets_handleDelete i) (Inr bodies) =
     [Toast Success (JStr msg_delete_succeeded), Start Datasets_fetchDatasets,
      Start Datasets_fetchStatistics]"
| "after_await (Datasets_handleDelete i) (Inl err) = [Toast Error (JStr msg_delete_failed)]"
| "after_await (Datasets_handlePreview i) (Inr bodies) =
     [SetState ''previewData'', SetState ''previewModalVisible'']"
| "after_await (Datasets_handlePreview i) (Inl err) = [Toast Error (JStr msg_preview_failed)]"
| "after_await Tasks_fetchTasks (Inr bodies) = [SetState ''tasks'', SetLoading False]"
| "after_await Tasks_fetchTasks (Inl err) = [Toast Error (JStr msg_fetch_tasks_failed), SetLoading False]"
| "after_await Tasks_fetchStatistics (Inr bodies) = [SetState ''statistics'']"
| "after_await Tasks_fetchStatistics (Inl err) = [ConsoleError msg_statistics_failed]"
| "after_await (Tasks_handleStartTask taskId) (Inr bodies) =
     [Toast Success (JStr msg_start_succeeded), Start Tasks_fetchTasks]"
| "after_await (Tasks_handleStartTask taskId) (Inl err) =
     [Toast Error (or_else (error_message err) (JStr msg_start_failed))]"
| "after_await (Tasks_handleCancelTask taskId) (Inr bodies) =
     [Toast Success (JStr msg_cancel_succeeded), Start Tasks_fetchTasks]"
| "after_await (Tasks_handleCancelTask taskId) (Inl err) = [Toast Error (JStr msg_cancel_failed)]"
| "after_await (Tasks_handleDeleteTask taskId) (Inr bodies) =
     [Toast Success (JStr msg_delete_succeeded), Start Tasks_fetchTasks, Start Tasks_fetchStatistics]"
| "after_await (Tasks_handleDeleteTask taskId) (Inl err) = [Toast Error (JStr msg_delete_failed)]"
| "after_await (Tasks_handleViewDetails taskId) (Inr bodies) =
     [SetState ''selectedTask'', SetState ''detailModalVisible'']"
| "after_await (Tasks_handleViewDetails taskId) (Inl err) = [Toast Error (JStr msg_task_details_failed)]"
| "after_await Results_fetchResults (Inr bodies) = [SetState ''results'', SetLoading False]"
| "after_await Results_fetchResults (Inl err) =
     [Toast Error (JStr msg_fetch_results_failed), SetLoading False]"
| "after_await Results_fetchStatistics (Inr bodies) = [SetState ''statistics'']"
| "after_await Results_fetchStatistics (Inl err) = [ConsoleError msg_statistics_failed]"
| "after_await (Results_handleExport resultId format) (Inr bodies) =
     [Download (''result_'' @ number_to_string resultId @ ''.'' @
                (case format of None \<Rightarrow> ''csv'' | Some f \<Rightarrow> f)),
      Toast Success (JStr msg_export_succeeded)]"
| "after_await (Results_handleExport resultId format) (Inl err) = [Toast Error (JStr msg_export_failed)]"
| "after_await Analysis_fetchInitialData (Inr bodies) = [SetState ''datasets'', SetState ''algorithms'']"
| "after_await Analysis_fetchInitialData (Inl err) = [Toast Error (JStr msg_fetch_data_failed)]"
| "after_await (Analysis_fetchAlgorithmDetails algorithmName) (Inr bodies) = [SetState ''algorithmDetails'']"
| "after_await (Analysis_fetchAlgorithmDetails algorithmName) (Inl err) =
     [Toast Error (JStr msg_algorithm_details_failed)]"
| "after_await (Analysis_handleSubmitTask values selectedAlgorithm) (Inr bodies) =
     [Toast Success (JStr msg_task_created), SetState ''createModalVisible'', ResetFields,
      SetLoading False]"
| "after_await (Analysis_handleSubmitTask values selectedAlgorithm) (Inl err) =
     [Toast Error (or_else (error_message err) (JStr msg_create_task_failed)), SetLoading False]"
| "after_await (Login_onFinish username password) (Inr bodies) =
     [Toast Success (JStr msg_login_succeeded), RouterPush ''/'', SetLoading False]"
| "after_await (Login_onFinish username password) (Inl err) =
     [Toast Error (or_else (error_message err) (JStr msg_login_failed)), SetLoading False]"

text \<open>A failure is surfaced as a toast when \<^verbatim>\<open>message.error\<close> is among the effects.\<close>

fun is_error_toast :: "effect \<Rightarrow> bool" where
  "is_error_toast (Toast Error content) = True"
| "is_error_toast e = False"

definition surfaces_toast :: "effect list \<Rightarrow> bool" where
  "surfaces_toast effects = list_ex is_error_toast effects"

fun is_console_error :: "effect \<Rightarrow> bool" where
  "is_console_error (ConsoleError line) = True"
| "is_console_error e = False"


section \<open>The task-monitoring page as a transition system\<close>

text \<open>
  The page reacts to events of the browser: it is mounted and unmounted, an interval timer
  fires, an awaited promise settles, the user clicks. The browser keeps the table of the
  interval timers that \<^verbatim>\<open>setInterval\<close> registered and \<^verbatim>\<open>clearInterval\<close> has not
  removed; it fires a registered timer again and again, \<open>delay\<close> milliseconds apart, and
  never fires a timer that is not in the table. Time itself is not part of the state.
\<close>

record timer =
  delay :: nat
  callback :: "handler list"

text \<open>Why a request was issued.\<close>

datatype cause = OnMount | OnTimer | OnUser | AfterSuccess | AfterFailure

datatype entry = Issued awaited cause | Failed awaited | Succeeded awaited

text \<open>
  \<open>cleanup\<close> is the timer identifier that the cleanup function of the effect has captured,
  \<open>pending\<close> the handlers suspended at their \<^verbatim>\<open>await\<close>, \<open>history\<close> the requests issued
  and their outcomes in order, \<open>effects\<close> what the handlers have done to the page.
\<close>

record page =
  mounted :: bool
  timers :: "(nat \<times> timer) list"
  next_timer_id :: nat
  cleanup :: "nat option"
  pending :: "handler list"
  history :: "entry list"
  effects :: "effect list"

text \<open>Timer identifiers are positive, so \<^verbatim>\<open>if (interval)\<close> holds of every one of them.\<close>

definition initial_page :: page where
  "initial_page =
     \<lparr>mounted = False, timers = [], next_timer_id = 1, cleanup = None, pending = [],
      history = [], effects = []\<rparr>"

definition setInterval :: "handler list \<Rightarrow> nat \<Rightarrow> page \<Rightarrow> nat \<times> page" where
  "setInterval cb ms s =
     (next_timer_id s,
      s\<lparr>timers := timers s @ [(next_timer_id s, \<lparr>delay = ms, callback = cb\<rparr>)],
        next_timer_id := Suc (next_timer_id s)\<rparr>)"

definition clearInterval :: "nat \<Rightarrow> page \<Rightarrow> page" where
  "clearInterval i s = s\<lparr>timers := filter (\<lambda>(j, t). j \<noteq> i) (timers s)\<rparr>"

text \<open>A handler is called: it runs up to its \<^verbatim>\<open>await\<close>.\<close>

definition call :: "cause \<Rightarrow> handler \<Rightarrow> page \<Rightarrow> page" where
  "call c h s =
     (case before_await h of
        (effs, awaits) \<Rightarrow>
          s\<lparr>history := history s @ map (\<lambda>a. Issued a c) awaits,
            effects := effects s @ effs,
            pending := pending s @ (if awaits = [] then [] else [h])\<rparr>)"

fun call_all :: "cause \<Rightarrow> handler list \<Rightarrow> page \<Rightarrow> page" where
  "call_all c [] s = s"
| "call_all c (h # hs) s = call_all c hs (call c h s)"

text \<open>The effects of the second half of a handler, in order.\<close>

fun perform :: "cause \<Rightarrow> effect list \<Rightarrow> page \<Rightarrow> page" where
  "perform c [] s = s"
| "perform c (Start h # es) s = perform c es (call c h s)"
| "perform c (e # es) s = perform c es (s\<lparr>effects := effects s @ [e]\<rparr>)"

text \<open>
  \<^verbatim>\<open>await\<close> of one promise, or of \<^verbatim>\<open>Promise.all\<close> of several: resolved when every
  call resolved, rejected with the error of a rejected call otherwise.
\<close>

fun all_settled :: "(axios_error + js_value) list \<Rightarrow> axios_error + js_value list" where
  "all_settled [] = Inr []"
| "all_settled (Inl err # outcomes) = Inl err"
| "all_settled (Inr body # outcomes) =
     (case all_settled outcomes of Inl err \<Rightarrow> Inl err | Inr bodies \<Rightarrow> Inr (body # bodies))"

fun outcome_entry :: "awaited \<Rightarrow> axios_error + js_value \<Rightarrow> entry" where
  "outcome_entry a (Inl err) = Failed a"
| "outcome_entry a (Inr body) = Succeeded a"

datatype user_action =
    ClickRefresh
  | ClickViewDetails int
  | ClickStart int
  | ConfirmCancel int
  | ConfirmDelete int

fun handlers_of :: "user_action \<Rightarrow> handler list" where
  "handlers_of ClickRefresh = [Tasks_fetchTasks, Tasks_fetchStatistics]"
| "handlers_of (ClickViewDetails taskId) = [Tasks_handleViewDetails taskId]"
| "handlers_of (ClickStart taskId) = [Tasks_handleStartTask taskId]"
| "handlers_of (ConfirmCancel taskId) = [Tasks_handleCancelTask taskId]"
| "handlers_of (ConfirmDelete taskId) = [Tasks_handleDeleteTask taskId]"

text \<open>
  \<open>Settle i outcomes\<close>: the promise that the \<open>i\<close>-th suspended handler awaits settles, with
  one outcome for each of its calls.
\<close>

datatype event =
    Mount
  | Unmount
  | Tick nat
  | Settle nat "(axios_error + js_value) list"
  | User user_action

text \<open>
  \<open>Mount\<close> is the body of the effect:
  \<^verbatim>\<open>fetchTasks(); fetchStatistics();
  const interval = setInterval(() => { fetchTasks(); }, 5000);
  setRefreshInterval(interval);\<close>
  and \<open>Unmount\<close> its cleanup: \<^verbatim>\<open>if (interval) clearInterval(interval);\<close>
\<close>

fun step :: "event \<Rightarrow> page \<Rightarrow> page" where
  "step Mount s =
     (if mounted s then s
      else case setInterval [Tasks_fetchTasks] 5000
                  (call OnMount Tasks_fetchStatistics (call OnMount Tasks_fetchTasks s)) of
             (interval, s') \<Rightarrow>
               s'\<lparr>mounted := True, cleanup := Some interval,
                  effects := effects s' @ [SetState ''refreshInterval'']\<rparr>)"
| "step Unmount s =
     (if \<not> mounted s then s
      else case cleanup s of
             None \<Rightarrow> s\<lparr>mounted := False\<rparr>
           | Some interval \<Rightarrow>
               (if interval \<noteq> 0 then clearInterval interval s else s)
                 \<lparr>mounted := False, cleanup := None\<rparr>)"
| "step (Tick i) s =
     (case map_of (timers s) i of
        None \<Rightarrow> s
      | Some t \<Rightarrow> call_all OnTimer (callback t) s)"
| "step (Settle i outcomes) s =
     (if i < length (pending s) \<and> length outcomes = length (snd (before_await (pending s ! i)))
      then perform (case all_settled outcomes of Inl err \<Rightarrow> AfterFailure | Inr bodies \<Rightarrow> AfterSuccess)
             (after_await (pending s ! i) (all_settled outcomes))
             (s\<lparr>pending := take i (pending s) @ drop (Suc i) (pending s),
                history := history s @
                  map (\<lambda>(a, outcome). outcome_entry a outcome)
                    (zip (snd (before_await (pending s ! i))) outcomes)\<rparr>)
      else s)"
| "step (User a) s = (if mounted s then call_all OnUser (handlers_of a) s else s)"

fun run :: "event list \<Rightarrow> page \<Rightarrow> page" where
  "run [] s = s"
| "run (e # es) s = run es (step e s)"




text \<open>An error that carries no response: the connection failed.\<close>

definition network_error :: axios_error where
  "network_error = \<lparr>response = None\<rparr>"


text \<open>
  The state of the page while it polls: mounted, with the one timer that the effect
  registered in the table and its identifier held by the cleanup.
\<close>

definition polling :: "page \<Rightarrow> bool" where
  "polling s \<longleftrightarrow> mounted s \<and> cleanup s = Some 1 \<and>
     timers s = [(1, \<lparr>delay = 5000, callback = [Tasks_fetchTasks]\<rparr>)]"

text \<open>The number of task-list fetches that the timer has issued.\<close>

definition by_timer :: "entry list \<Rightarrow> nat" where
  "by_timer h = count_list h (Issued (ApiCall GetTasks) OnTimer)"



section \<open>Properties of the client wrapper\<close>

lemmas method_defs = login_def getProfile_def getAlgorithms_def getAlgorithmInfo_def
  getAlgorithmParameters_def getAlgorithmComparison_def getDatasets_def uploadDataset_def
  getDataset_def previewDataset_def deleteDataset_def validateDataset_def getDatasetStatistics_def
  createTask_def getTasks_def getTask_def startTask_def cancelTask_def deleteTask_def
  getRunningTasks_def getTaskStatistics_def getTaskServiceStatus_def getResults_def getResult_def
  compareResults_def exportResult_def deleteResult_def getResultStatistics_def

text \<open>
  C1. A response with status 401 makes the response interceptor remove \<^verbatim>\<open>access_token\<close>
  from \<^verbatim>\<open>localStorage\<close> and set the location to \<^verbatim>\<open>/login\<close>, and the promise is
  still rejected with the error. Every other error (a response with another status outside
  200 to 299, or no response at all) leaves \<^verbatim>\<open>localStorage\<close> and the location as they
  were and rejects the promise.
\<close>

theorem unauthorized_response_forces_logout:
  "(\<forall>r. srv (request_interceptor b config) = Some r \<and> status r = 401 \<longrightarrow>
      fst (client_request srv config b) = Inl \<lparr>response = Some r\<rparr> \<and>
      localStorage (snd (client_request srv config b)) = (localStorage b)(''access_token'' := None) \<and>
      location_href (snd (client_request srv config b)) = ''/login'') \<and>
   (\<forall>r. srv (request_interceptor b config) = Some r \<and> status r \<noteq> 401 \<and>
        \<not> (200 \<le> status r \<and> status r < 300) \<longrightarrow>
      fst (client_request srv config b) = Inl \<lparr>response = Some r\<rparr> \<and>
      localStorage (snd (client_request srv config b)) = localStorage b \<and>
      location_href (snd (client_request srv config b)) = location_href b) \<and>
   (srv (request_interceptor b config) = None \<longrightarrow>
      fst (client_request srv config b) = Inl \<lparr>response = None\<rparr> \<and>
      localStorage (snd (client_request srv config b)) = localStorage b \<and>
      location_href (snd (client_request srv config b)) = location_href b)"
  by (simp add: client_request_def settle_def response_error_interceptor_def Let_def)

text \<open>
  C1 at a backend that answers 401 and at one that answers 500, for a page at
  \<^verbatim>\<open>/tasks\<close> that holds the token \<^verbatim>\<open>abc\<close>.
\<close>

theorem unauthorized_response_forces_logout_witness:
  "fst (client_request (answer_with 401) (make_request GET ''/tasks'' None no_config) logged_in_browser)
     = Inl \<lparr>response = Some \<lparr>status = 401, data = JNull\<rparr>\<rparr> \<and>
   localStorage (snd (client_request (answer_with 401) (make_request GET ''/tasks'' None no_config) logged_in_browser))
     ''access_token'' = None \<and>
   location_href (snd (client_request (answer_with 401) (make_request GET ''/tasks'' None no_config) logged_in_browser))
     = ''/login'' \<and>
   localStorage (snd (client_request (answer_with 500) (make_request GET ''/tasks'' None no_config) logged_in_browser))
     ''access_token'' = Some ''abc'' \<and>
   location_href (snd (client_request (answer_with 500) (make_request GET ''/tasks'' None no_config) logged_in_browser))
     = ''/tasks''"
  using unauthorized_response_forces_logout
      [of "answer_with 401" logged_in_browser "make_request GET ''/tasks'' None no_config"]
    unauthorized_response_forces_logout
      [of "answer_with 500" logged_in_browser "make_request GET ''/tasks'' None no_config"]
  by (simp add: answer_with_def logged_in_browser_def)




lemma client_request_sent:
  "\<exists>b'. client_request srv config b =
     (case settle (srv (request_interceptor b config)) of Inl e \<Rightarrow> Inl e | Inr r \<Rightarrow> Inr r, b') \<and>
     network_log b' = network_log b @ [request_interceptor b config]"
  by (simp add: client_request_def Let_def response_interceptor_def response_error_interceptor_def
      split: sum.splits)

lemma interceptor_keeps:
  "method' (request_interceptor b config) = method' config"
  "url (request_interceptor b config) = url config"
  "responseType (request_interceptor b config) = responseType config"
  by (simp_all add: request_interceptor_def split: option.splits)

lemma response_data_request:
  "network_log (snd (response_data (client_request srv config b))) =
     network_log b @ [request_interceptor b config] \<and>
   fst (response_data (client_request srv config b)) =
     (case settle (srv (request_interceptor b config)) of Inl e \<Rightarrow> Inl e | Inr r \<Rightarrow> Inr (data r))"
  using client_request_sent [of srv config b]
  by (auto simp add: response_data_def split: sum.splits)

text \<open>
  C6. Every public method of the client puts exactly one request on the wire, with the HTTP
  method and the path that the table \<open>endpoint\<close> gives for the method and its arguments,
  whatever the backend and the browser; when the request resolves it returns the body of
  the response unchanged, and when it rejects it rejects with the same error.
\<close>

theorem every_method_issues_one_request:
  "\<exists>req. network_log (snd (invoke srv c b)) = network_log b @ [req] \<and>
         (method' req, url req) = endpoint c \<and>
         fst (invoke srv c b) = (case settle (srv req) of Inl e \<Rightarrow> Inl e | Inr r \<Rightarrow> Inr (data r))"
  by (cases c)
    (simp_all add: method_defs client_get_def client_post_def client_delete_def
      response_data_request interceptor_keeps make_request_def)

text \<open>
  C7. \<^verbatim>\<open>exportResult\<close> issues one GET request to
  \<^verbatim>\<open>/results/{resultId}/export\<close> with \<^verbatim>\<open>responseType\<close> blob and returns the body of
  the response; the query string is \<^verbatim>\<open>format=csv\<close> when the format is omitted and
  \<^verbatim>\<open>format={format}\<close> when one is supplied.
\<close>

theorem exportResult_request:
  "\<exists>req. network_log (snd (exportResult srv resultId format b)) = network_log b @ [req] \<and>
         method' req = GET \<and>
         url req = ''/results/'' @ number_to_string resultId @ ''/export?format='' @
                   (case format of None \<Rightarrow> ''csv'' | Some f \<Rightarrow> f) \<and>
         responseType req = Blob \<and>
         fst (exportResult srv resultId format b) =
           (case settle (srv req) of Inl e \<Rightarrow> Inl e | Inr r \<Rightarrow> Inr (data r))"
  by (simp add: exportResult_def client_get_def response_data_request interceptor_keeps make_request_def)


section \<open>Properties of the results page and of the status tags\<close>

lemmas label_defs = label_excellent_def label_good_def label_fair_def label_poor_def

text \<open>
  C9. For every score, NaN and the infinities included, the colour and the label of the
  quality tag agree: \<^verbatim>\<open>success\<close> goes with the label for excellent, \<^verbatim>\<open>processing\<close>
  with good, \<^verbatim>\<open>warning\<close> with fair and \<^verbatim>\<open>error\<close> with poor.
\<close>

theorem quality_color_matches_status:
  "(getQualityColor score = ''success'' \<longleftrightarrow> getQualityStatus score = label_excellent) \<and>
   (getQualityColor score = ''processing'' \<longleftrightarrow> getQualityStatus score = label_good) \<and>
   (getQualityColor score = ''warning'' \<longleftrightarrow> getQualityStatus score = label_fair) \<and>
   (getQualityColor score = ''error'' \<longleftrightarrow> getQualityStatus score = label_poor)"
  by (simp add: getQualityColor_def getQualityStatus_def label_defs)

lemmas status_table_defs = getStatusConfig_def render_task_status_def render_dashboard_status_def
  object_get_def configs_def statusConfig_def object_prototype_properties_def

text \<open>The five known statuses get their colour, label and icon.\<close>

lemma getStatusConfig_known:
  "getStatusConfig ''pending'' =
     Entry \<lparr>color = ''orange'', text' = text_pending, icon = Some ClockCircleOutlined\<rparr>"
  "getStatusConfig ''running'' =
     Entry \<lparr>color = ''green'', text' = text_running, icon = Some PlayCircleOutlined\<rparr>"
  "getStatusConfig ''completed'' =
     Entry \<lparr>color = ''blue'', text' = text_completed, icon = Some CheckCircleOutlined\<rparr>"
  "getStatusConfig ''failed'' =
     Entry \<lparr>color = ''red'', text' = text_failed, icon = Some ExclamationCircleOutlined\<rparr>"
  "getStatusConfig ''cancelled'' =
     Entry \<lparr>color = ''default'', text' = text_cancelled, icon = Some PauseCircleOutlined\<rparr>"
  by (simp_all add: status_table_defs)

text \<open>
  A string that is neither a known status nor the name of a member of
  \<^verbatim>\<open>Object.prototype\<close> gets the default colour and itself as the text, on both pages.
\<close>

lemma getStatusConfig_fallback:
  "st \<notin> {''pending'', ''running'', ''completed'', ''failed'', ''cancelled''} \<Longrightarrow>
   st \<notin> set object_prototype_properties \<Longrightarrow>
   getStatusConfig st = Entry \<lparr>color = ''default'', text' = st, icon = None\<rparr> \<and>
   render_task_status st = \<lparr>tag_color = Some ''default'', tag_text = Some st\<rparr> \<and>
   render_dashboard_status st = \<lparr>tag_color = Some ''default'', tag_text = Some st\<rparr>"
  by (simp add: getStatusConfig_def render_task_status_def render_dashboard_status_def
      object_get_def configs_def statusConfig_def)

text \<open>
  C10 at the status string \<^verbatim>\<open>constructor\<close>: the read \<^verbatim>\<open>configs[status]\<close> finds
  \<^verbatim>\<open>Object.prototype.constructor\<close>, which is truthy, so the fallback is not taken;
  the function returns that member instead of the default colour with the raw status as
  the text, and both pages render a tag whose colour and text are undefined.
\<close>

theorem status_fallback_misses_inherited_names:
  "getStatusConfig ''constructor'' = Builtin ''constructor'' \<and>
   getStatusConfig ''constructor'' \<noteq>
     Entry \<lparr>color = ''default'', text' = ''constructor'', icon = None\<rparr> \<and>
   render_task_status ''constructor'' = \<lparr>tag_color = None, tag_text = None\<rparr> \<and>
   render_dashboard_status ''constructor'' = \<lparr>tag_color = None, tag_text = None\<rparr>"
  by (simp add: status_table_defs)


section \<open>Properties of the pages\<close>

text \<open>
  C4 as stated fails: \<^verbatim>\<open>fetchStatistics\<close> of the task page calls the backend, and when
  the call fails it writes a line to the console and shows no toast.
\<close>

theorem failed_call_toast_counterexample:
  "before_await Tasks_fetchStatistics = ([], [ApiCall GetTaskStatistics]) \<and>
   after_await Tasks_fetchStatistics (Inl network_error) = [ConsoleError msg_statistics_failed] \<and>
   \<not> surfaces_toast (after_await Tasks_fetchStatistics (Inl network_error))"
  by (simp add: surfaces_toast_def)

text \<open>
  C4, amended. When the call that a page handler awaits fails, the handler shows an error
  toast, except for the dashboard's \<^verbatim>\<open>fetchDashboardData\<close> and the
  \<^verbatim>\<open>fetchStatistics\<close> of the dataset, task and result pages: these four show no toast
  and write the failure to the console, and they are the only handlers that do.
\<close>

theorem failed_call_toast_or_console:
  "(surfaces_toast (after_await h (Inl err)) \<longleftrightarrow>
      h \<notin> {Dashboard_fetchDashboardData, Datasets_fetchStatistics, Tasks_fetchStatistics,
            Results_fetchStatistics}) \<and>
   (list_ex is_console_error (after_await h (Inl err)) \<longleftrightarrow>
      h \<in> {Dashboard_fetchDashboardData, Datasets_fetchStatistics, Tasks_fetchStatistics,
            Results_fetchStatistics})"
  by (cases h) (simp_all add: surfaces_toast_def)

subsection \<open>The polling timer\<close>

lemma call_frame:
  "timers (call c h s) = timers s" "mounted (call c h s) = mounted s"
  "cleanup (call c h s) = cleanup s" "next_timer_id (call c h s) = next_timer_id s"
  by (simp_all add: call_def split: prod.splits)

lemma call_all_frame:
  "timers (call_all c hs s) = timers s \<and> mounted (call_all c hs s) = mounted s \<and>
   cleanup (call_all c hs s) = cleanup s"
  by (induction hs arbitrary: s) (simp_all add: call_frame)

lemma perform_frame:
  "timers (perform c es s) = timers s \<and> mounted (perform c es s) = mounted s \<and>
   cleanup (perform c es s) = cleanup s"
  by (induction c es s rule: perform.induct) (simp_all add: call_frame)

lemma polling_mount: "polling (step Mount initial_page)"
  by (simp add: polling_def initial_page_def setInterval_def call_frame split: prod.splits)

lemma polling_step: "polling s \<Longrightarrow> Unmount \<noteq> e \<Longrightarrow> polling (step e s)"
  by (cases e) (auto simp add: polling_def call_all_frame perform_frame call_frame)

lemma polling_run: "polling s \<Longrightarrow> Unmount \<notin> set es \<Longrightarrow> polling (run es s)"
  by (induction es arbitrary: s) (simp_all add: polling_step)

lemma polling_unmount: "polling s \<Longrightarrow> timers (step Unmount s) = [] \<and> \<not> mounted (step Unmount s)"
  by (simp add: polling_def clearInterval_def)

lemma count_issued_other: "c \<noteq> c' \<Longrightarrow> count_list (map (\<lambda>a. Issued a c) as) (Issued a' c') = 0"
  by (induction as) simp_all

lemma count_outcomes:
  "count_list (map (\<lambda>(a, outcome). outcome_entry a outcome) zs) (Issued a' c') = 0"
proof (induction zs)
  case Nil
  then show ?case by simp
next
  case (Cons z zs)
  obtain a outcome where z: "z = (a, outcome)" by (cases z)
  show ?case using Cons z by (cases outcome) simp_all
qed

lemma by_timer_outcomes:
  "by_timer (h @ map (\<lambda>(a, outcome). outcome_entry a outcome) zs) = by_timer h"
  by (simp add: by_timer_def count_outcomes)

lemma call_by_timer:
  "c \<noteq> OnTimer \<Longrightarrow> by_timer (history (call c h s)) = by_timer (history s)"
  by (simp add: call_def by_timer_def count_issued_other split: prod.splits)

lemma call_all_by_timer:
  "c \<noteq> OnTimer \<Longrightarrow> by_timer (history (call_all c hs s)) = by_timer (history s)"
  by (induction hs arbitrary: s) (simp_all add: call_by_timer)

lemma perform_by_timer:
  "c \<noteq> OnTimer \<Longrightarrow> by_timer (history (perform c es s)) = by_timer (history s)"
  by (induction c es s rule: perform.induct) (simp_all add: call_by_timer)

lemma tick_by_timer:
  "polling s \<Longrightarrow> by_timer (history (step (Tick i) s)) = by_timer (history s) + (if i = 1 then 1 else 0)"
  by (simp add: polling_def call_def by_timer_def)

lemma step_by_timer:
  assumes "polling s"
  shows "by_timer (history (step e s)) = by_timer (history s) + (if e = Tick 1 then 1 else 0)"
proof (cases e)
  case Mount
  then show ?thesis using assms by (simp add: polling_def)
next
  case Unmount
  then show ?thesis using assms by (simp add: polling_def clearInterval_def)
next
  case (Tick i)
  then show ?thesis using tick_by_timer [OF assms, of i] by simp
next
  case (Settle i outcomes)
  then show ?thesis
    by (simp add: perform_by_timer by_timer_outcomes split: sum.splits)
next
  case (User a)
  then show ?thesis by (simp add: call_all_by_timer)
qed

lemma run_by_timer:
  "polling s \<Longrightarrow> Unmount \<notin> set es \<Longrightarrow>
   by_timer (history (run es s)) = by_timer (history s) + count_list es (Tick 1)"
proof (induction es arbitrary: s)
  case Nil
  then show ?case by simp
next
  case (Cons e es)
  then have "polling (step e s)" by (simp add: polling_step)
  with Cons show ?case by (simp add: step_by_timer)
qed

lemma mount_by_timer: "by_timer (history (step Mount initial_page)) = 0"
  by (simp add: initial_page_def by_timer_def call_def setInterval_def)

lemma unmounted_frame:
  "\<not> mounted s \<Longrightarrow> timers s = [] \<Longrightarrow> Mount \<noteq> e \<Longrightarrow>
   \<not> mounted (step e s) \<and> timers (step e s) = [] \<and>
   by_timer (history (step e s)) = by_timer (history s)"
  by (cases e)
    (simp_all add: perform_frame perform_by_timer by_timer_outcomes split: sum.splits)

lemma unmounted_run:
  "\<not> mounted s \<Longrightarrow> timers s = [] \<Longrightarrow> Mount \<notin> set es \<Longrightarrow>
   timers (run es s) = [] \<and> by_timer (history (run es s)) = by_timer (history s)"
proof (induction es arbitrary: s)
  case Nil
  then show ?case by simp
next
  case (Cons e es)
  then show ?case using unmounted_frame [of s e] by simp
qed

text \<open>
  C3. No timer exists before the task page is mounted. From the mount on, and through every
  sequence \<open>es\<close> of timer ticks, settled promises (resolved or rejected) and user actions
  that does not unmount the page, the timer table holds exactly one timer, with the
  interval 5000 ms and the task-list fetch as its callback; the timer has issued one
  task-list fetch for each of its ticks, whatever was still in flight or had failed.
  Unmounting clears the timer, and until the page is mounted again no timer exists and no
  further fetch is issued by it.
\<close>

theorem polling_timer_fixed_interval:
  assumes "Unmount \<notin> set es" and "Mount \<notin> set es'"
  shows "timers initial_page = [] \<and>
         timers (run es (step Mount initial_page)) =
           [(1, \<lparr>delay = 5000, callback = [Tasks_fetchTasks]\<rparr>)] \<and>
         count_list (history (run es (step Mount initial_page))) (Issued (ApiCall GetTasks) OnTimer) =
           count_list es (Tick 1) \<and>
         timers (run es' (step Unmount (run es (step Mount initial_page)))) = [] \<and>
         count_list (history (run es' (step Unmount (run es (step Mount initial_page)))))
             (Issued (ApiCall GetTasks) OnTimer) = count_list es (Tick 1)"
proof -
  let ?s = "run es (step Mount initial_page)"
  have p: "polling ?s" using assms(1) polling_mount by (rule_tac polling_run)
  have t: "timers ?s = [(1, \<lparr>delay = 5000, callback = [Tasks_fetchTasks]\<rparr>)]"
    using p by (simp add: polling_def)
  have n: "by_timer (history ?s) = count_list es (Tick 1)"
    using run_by_timer [OF polling_mount assms(1)] mount_by_timer by simp
  have u: "\<not> mounted (step Unmount ?s)" "timers (step Unmount ?s) = []"
    using polling_unmount [OF p] by simp_all
  have h: "by_timer (history (step Unmount ?s)) = by_timer (history ?s)"
    using p by (simp add: polling_def clearInterval_def)
  have a: "timers (run es' (step Unmount ?s)) = []"
    "by_timer (history (run es' (step Unmount ?s))) = by_timer (history (step Unmount ?s))"
    using unmounted_run [OF u assms(2)] by simp_all
  show ?thesis using t n a h by (simp add: by_timer_def initial_page_def)
qed

text \<open>
  C3 on a run in which the first fetch fails and the timer then ticks twice: the timer is
  still there, it has issued two fetches, and a tick after the unmount finds no timer.
\<close>

theorem polling_timer_fixed_interval_witness:
  "Unmount \<notin> set [Settle 0 [Inl network_error], Tick 1, Tick 1] \<and> Mount \<notin> set [Tick 1] \<and>
   timers (run [Settle 0 [Inl network_error], Tick 1, Tick 1] (step Mount initial_page)) =
     [(1, \<lparr>delay = 5000, callback = [Tasks_fetchTasks]\<rparr>)] \<and>
   count_list (history (run [Settle 0 [Inl network_error], Tick 1, Tick 1] (step Mount initial_page)))
     (Issued (ApiCall GetTasks) OnTimer) = 2 \<and>
   timers (run [Tick 1] (step Unmount
     (run [Settle 0 [Inl network_error], Tick 1, Tick 1] (step Mount initial_page)))) = []"
proof -
  have h1: "Unmount \<notin> set [Settle 0 [Inl network_error], Tick 1, Tick 1]" by simp
  have h2: "Mount \<notin> set [Tick 1]" by simp
  have c: "count_list [Settle 0 [Inl network_error], Tick 1, Tick 1] (Tick 1) = 2" by simp
  show ?thesis
    using polling_timer_fixed_interval [OF h1 h2] h1 h2 by (simp only: c simp_thms)
qed

subsection \<open>No retry\<close>




















section \<open>Properties of the size formatter\<close>

lemma round_half_even_upper: "of_int (round_half_even t) \<le> t + 1 / 2"
  unfolding round_half_even_def by (auto; linarith)

lemma round_half_even_nonneg: "0 \<le> t \<Longrightarrow> 0 \<le> round_half_even t"
  unfolding round_half_even_def by auto

lemma round_half_even_up:
  assumes "of_int n - 1 / 2 < t" "t \<le> of_int n"
  shows "round_half_even t = n"
proof (cases "t = of_int n")
  case True
  then show ?thesis by (simp add: round_half_even_def)
next
  case False
  then have lt: "t < of_int n" using assms(2) by simp
  have f: "\<lfloor>t\<rfloor> = n - 1"
    using assms(1) lt by (intro floor_unique) simp_all
  have "1 / 2 < t - of_int \<lfloor>t\<rfloor>" using assms(1) f by simp
  then show ?thesis using f by (simp add: round_half_even_def)
qed

lemma two_powi_floor_log:
  assumes "0 < x"
  shows "2 powi \<lfloor>log 2 x\<rfloor> \<le> x"
proof -
  have "2 powr (of_int \<lfloor>log 2 x\<rfloor>) \<le> 2 powr (log 2 x)"
    by (rule powr_mono) simp_all
  also have "\<dots> = x" using assms by simp
  finally show ?thesis by (simp add: powr_real_of_int')
qed

lemma round_double_nonneg: "0 \<le> x \<Longrightarrow> 0 \<le> round_double x"
  by (simp add: round_double_def round_half_even_nonneg)

text \<open>Rounding to a double raises a positive number by at most half a unit in the last place.\<close>

lemma round_double_upper:
  assumes "0 < x"
  shows "round_double x \<le> x + x / 2 ^ 53"
proof -
  define u :: real where "u = 2 powi (\<lfloor>log 2 x\<rfloor> - 52)"
  have u0: "0 < u" by (simp add: u_def)
  have "u = 2 powi \<lfloor>log 2 x\<rfloor> / 2 ^ 52"
    by (simp add: u_def power_int_diff)
  then have ux: "u \<le> x / 2 ^ 52"
    using two_powi_floor_log [OF assms] by (simp add: divide_right_mono)
  have "round_double x = of_int (round_half_even (x / u)) * u"
    using assms by (simp add: round_double_def u_def)
  also have "\<dots> \<le> (x / u + 1 / 2) * u"
    using round_half_even_upper [of "x / u"] u0 by (simp add: mult_right_mono)
  also have "\<dots> = x + u / 2" using u0 by (simp add: field_simps)
  also have "\<dots> \<le> x + x / 2 ^ 53" using ux by simp
  finally show ?thesis .
qed

text \<open>A quotient that is below 4 by less than half a unit in the last place rounds to 4.\<close>

lemma round_double_to_4:
  assumes "4 - 1 / 2 ^ 52 < q" "q \<le> 4"
  shows "round_double q = 4"
proof (cases "q = 4")
  case True
  have "log 2 (4::real) = 2" using log_nat_power [of "2::real" 2 2] by simp
  then show ?thesis using True
    by (simp add: round_double_def round_half_even_def)
next
  case False
  then have lt: "q < 4" using assms(2) by simp
  have q2: "2 \<le> q" using assms(1) by simp
  have qpos: "0 < q" using q2 by simp
  have l4: "log 2 (4::real) = 2" using log_nat_power [of "2::real" 2 2] by simp
  have "log 2 2 \<le> log 2 q" using q2 qpos by (subst log_le_cancel_iff) simp_all
  then have l1: "1 \<le> log 2 q" by simp
  have "log 2 q < log 2 4" using lt qpos by (subst log_less_cancel_iff) simp_all
  then have l2: "log 2 q < 2" using l4 by simp
  have f: "\<lfloor>log 2 q\<rfloor> = 1" using l1 l2 by (intro floor_unique) simp_all
  have u: "(2::real) powi (1 - 52) = 1 / 2 ^ 51" by (simp add: power_int_def power_one_over)
  have r: "round_half_even (q / (1 / 2 ^ 51)) = 2 ^ 53"
    using assms(1) lt by (intro round_half_even_up) (simp_all add: field_simps)
  show ?thesis using qpos f u r by (simp add: round_double_def)
qed

lemma round_double_1: "round_double 1 = 1"
  by (simp add: round_double_def round_half_even_def power_int_def power_one_over)

lemma ln_1024_bounds: "5 \<le> ln (1024::real)" "ln (1024::real) \<le> 10"
proof -
  have e: "ln (1024::real) = 10 * ln 2"
    using ln_realpow [of "2::real" 10] by simp
  have "ln (2::real) \<le> 2 - 1" by (rule ln_le_minus_one) simp
  then show "ln (1024::real) \<le> 10" using e by simp
  have "ln (1 / 2 :: real) \<le> 1 / 2 - 1" by (rule ln_le_minus_one) simp
  then have "1 / 2 \<le> ln (2::real)" by (simp add: ln_div)
  then show "5 \<le> ln (1024::real)" using e by simp
qed

lemma ln_below_top:
  assumes "1 \<le> r" "r \<le> 1024 ^ 4 - 1"
  shows "ln (r::real) \<le> 4 * ln 1024 - 1 / 2 ^ 40"
proof -
  have "ln r \<le> ln (1024 ^ 4 - 1 :: real)" using assms by (intro ln_mono) simp_all
  moreover have "ln (1024 ^ 4 - 1 :: real) = ln (1024 ^ 4) + ln ((1024 ^ 4 - 1) / 1024 ^ 4)"
    by (simp add: ln_div)
  moreover have "ln (1024 ^ 4 :: real) = 4 * ln 1024"
    using ln_realpow [of "1024::real" 4] by simp
  moreover have "ln ((1024 ^ 4 - 1) / 1024 ^ 4 :: real) \<le> (1024 ^ 4 - 1) / 1024 ^ 4 - 1"
    by (rule ln_le_minus_one) simp
  ultimately show ?thesis by simp
qed

text \<open>
  With an accurate logarithm the index of every size from 1 to \<open>1024^4 - 1\<close> is 0, 1, 2 or
  3: the exact quotient is below 4 by more than \<open>2^-46\<close>, which neither the error of the two
  logarithms nor the rounding of the division makes up.
\<close>

lemma index_in_range:
  assumes acc: "accurate_log Math_log" and lo: "1 \<le> r" and hi: "r \<le> 1024 ^ 4 - 1"
  shows "Math_log 1024 \<noteq> 0"
    and "0 \<le> \<lfloor>round_double (Math_log r / Math_log 1024)\<rfloor>"
    and "\<lfloor>round_double (Math_log r / Math_log 1024)\<rfloor> < 4"
proof -
  let ?a = "Math_log r" and ?b = "Math_log 1024"
  have ha: "\<bar>?a - ln r\<bar> \<le> ln r / 2 ^ 50" using acc lo by (simp add: accurate_log_def)
  have a1: "?a - ln r \<le> ln r / 2 ^ 50" by (rule abs_le_D1 [OF ha])
  have a2: "- (?a - ln r) \<le> ln r / 2 ^ 50" by (rule abs_le_D2 [OF ha])
  have hb: "\<bar>?b - ln 1024\<bar> \<le> ln 1024 / 2 ^ 50" using acc by (simp add: accurate_log_def)
  have b2: "- (?b - ln 1024) \<le> ln 1024 / 2 ^ 50" by (rule abs_le_D2 [OF hb])
  have lr: "0 \<le> ln r" using lo by simp
  have a0: "0 \<le> ?a" using a2 lr by simp
  have bpos: "0 < ?b" using b2 ln_1024_bounds(1) by simp
  show "?b \<noteq> 0" using bpos by simp
  have q0: "0 \<le> ?a / ?b" using a0 bpos by simp
  show "0 \<le> \<lfloor>round_double (?a / ?b)\<rfloor>" using round_double_nonneg [OF q0] by simp
  have top: "ln r \<le> 4 * ln 1024 - 1 / 2 ^ 40" using lo hi by (rule ln_below_top)
  have key: "?a + ?a / 2 ^ 53 < 4 * ?b"
    using a1 b2 top ln_1024_bounds lr by simp
  show "\<lfloor>round_double (?a / ?b)\<rfloor> < 4"
  proof (cases "?a = 0")
    case True
    then show ?thesis by (simp add: round_double_def)
  next
    case False
    then have qpos: "0 < ?a / ?b" using a0 bpos by simp
    have "round_double (?a / ?b) \<le> ?a / ?b + ?a / ?b / 2 ^ 53" by (rule round_double_upper [OF qpos])
    also have "\<dots> = (?a + ?a / 2 ^ 53) / ?b" by (simp add: add_divide_distrib)
    also have "\<dots> < 4" using key bpos by (simp add: pos_divide_less_eq)
    finally show ?thesis by (simp add: floor_less_iff)
  qed
qed

lemma ln_one_minus_lower:
  assumes "0 < t" "t < 1"
  shows "- (t / (1 - t)) \<le> ln (1 - t :: real)"
proof -
  have "ln (1 / (1 - t)) \<le> 1 / (1 - t) - 1" using assms by (intro ln_le_minus_one) simp
  moreover have "ln (1 / (1 - t)) = - ln (1 - t)" using assms by (simp add: ln_div)
  moreover have "1 / (1 - t) - 1 = t / (1 - t)" using assms by (simp add: field_simps)
  ultimately show ?thesis by simp
qed

text \<open>
  The double just below \<open>1024^4\<close> is \<open>2^40 - 2^-13\<close>. The quotient of its exact logarithm by
  that of 1024 is below 4 by less than \<open>2^-52\<close>.
\<close>

lemma quotient_below_top:
  "4 - 1 / 2 ^ 52 < ln (2 ^ 40 - 1 / 2 ^ 13 :: real) / ln 1024"
  "ln (2 ^ 40 - 1 / 2 ^ 13 :: real) / ln 1024 \<le> 4"
proof -
  let ?t = "1 / 2 ^ 53 :: real"
  have x: "(2 ^ 40 - 1 / 2 ^ 13 :: real) = 1024 ^ 4 * (1 - ?t)" by simp
  have m: "ln (1024 ^ 4 * (1 - ?t)) = ln (1024 ^ 4 :: real) + ln (1 - ?t)"
    by (rule ln_mult_pos) simp_all
  have p: "ln (1024 ^ 4 :: real) = 4 * ln 1024" using ln_realpow [of "1024::real" 4] by simp
  have l: "ln (2 ^ 40 - 1 / 2 ^ 13 :: real) = 4 * ln 1024 + ln (1 - ?t)"
    unfolding x m p by (rule refl)
  have lo: "- (?t / (1 - ?t)) \<le> ln (1 - ?t)" by (rule ln_one_minus_lower) simp_all
  have hi: "ln (1 - ?t) \<le> (1 - ?t) - 1" by (rule ln_le_minus_one) simp
  have b: "5 \<le> ln (1024::real)" by (rule ln_1024_bounds)
  then have bpos: "0 < ln (1024::real)" by simp
  show "ln (2 ^ 40 - 1 / 2 ^ 13 :: real) / ln 1024 \<le> 4"
    using hi bpos unfolding l by (simp add: pos_divide_le_eq)
  have "(4 - 1 / 2 ^ 52) * ln 1024 < 4 * ln 1024 + ln (1 - ?t)"
    using lo b by simp
  then show "4 - 1 / 2 ^ 52 < ln (2 ^ 40 - 1 / 2 ^ 13 :: real) / ln 1024"
    using bpos unfolding l by (simp add: pos_less_divide_eq)
qed

lemma accurate_log_ln: "accurate_log ln"
  by (simp add: accurate_log_def)

lemma hundredths_100: "hundredths_to_string 100 = ''1''"
  by (simp add: hundredths_to_string_def)

lemma formatFileSize_1024: "formatFileSize ln (Finite 1024) = ''1 KB''"
proof -
  have n: "ln (1024::real) \<noteq> 0" using ln_1024_bounds(1) by simp
  have f: "toFixed2 1 = 100" by (simp add: toFixed2_def)
  show ?thesis
    using n by (simp add: formatFileSize_def round_double_1 f hundredths_100 sizes_at_def sizes_def)
qed

text \<open>
  At the double just below \<open>1024^4\<close> the unit is undefined for every \<^verbatim>\<open>Math.log\<close>
  whose value there is four times its value at 1024; the exact logarithms differ by about
  \<open>2^-53\<close>, a thirty-second of the distance between the doubles near them.
\<close>

lemma formatFileSize_top_double:
  assumes "Math_log 1024 \<noteq> 0" and "Math_log (2 ^ 40 - 1 / 2 ^ 13) = 4 * Math_log 1024"
  shows "formatFileSize Math_log (Finite (2 ^ 40 - 1 / 2 ^ 13)) = ''1 undefined''"
proof -
  have r: "(of_rat (2 ^ 40 - 1 / 2 ^ 13) :: real) = 2 ^ 40 - 1 / 2 ^ 13"
    by (simp add: of_rat_diff of_rat_divide of_rat_power)
  have q: "Math_log (2 ^ 40 - 1 / 2 ^ 13) / Math_log 1024 = 4" using assms by simp
  have i: "\<lfloor>round_double (Math_log (2 ^ 40 - 1 / 2 ^ 13) / Math_log 1024)\<rfloor> = 4"
    unfolding q using round_double_to_4 [of 4] by simp
  have f: "toFixed2 ((2 ^ 40 - 1 / 2 ^ 13) / 1024 powi 4) = 100"
    by (simp add: toFixed2_def power_int_def)
  show ?thesis
    unfolding formatFileSize_def js_number.case r Let_def i f
    using assms(1) by (simp add: hundredths_100 sizes_at_def sizes_def)
qed

text \<open>
  C8 as stated fails at the double just below \<open>1024^4\<close>, which is at least 1 and below
  \<open>1024^4\<close>: even with the exact logarithm for \<^verbatim>\<open>Math.log\<close> the division rounds the quotient
  to 4, the index leaves the array, and the result is \<^verbatim>\<open>1 undefined\<close>.
\<close>

theorem formatFileSize_unit_counterexample:
  "accurate_log ln \<and>
   (1::rat) \<le> 2 ^ 40 - 1 / 2 ^ 13 \<and> (2 ^ 40 - 1 / 2 ^ 13 :: rat) < 1024 ^ 4 \<and>
   formatFileSize ln (Finite (2 ^ 40 - 1 / 2 ^ 13)) = ''1 undefined''"
proof -
  have r: "(of_rat (2 ^ 40 - 1 / 2 ^ 13) :: real) = 2 ^ 40 - 1 / 2 ^ 13"
    by (simp add: of_rat_diff of_rat_divide of_rat_power)
  have i: "\<lfloor>round_double (ln (2 ^ 40 - 1 / 2 ^ 13 :: real) / ln 1024)\<rfloor> = 4"
    using round_double_to_4 [OF quotient_below_top] by simp
  have n: "ln (1024::real) \<noteq> 0" using ln_1024_bounds(1) by simp
  have f: "toFixed2 ((2 ^ 40 - 1 / 2 ^ 13) / 1024 powi 4) = 100"
    by (simp add: toFixed2_def power_int_def)
  have "formatFileSize ln (Finite (2 ^ 40 - 1 / 2 ^ 13)) = ''1 undefined''"
    unfolding formatFileSize_def js_number.case r Let_def i f
    using n by (simp add: hundredths_100 sizes_at_def sizes_def)
  then show ?thesis using accurate_log_ln by simp
qed

text \<open>
  C8, amended. \<^verbatim>\<open>formatFileSize(0)\<close> is \<^verbatim>\<open>0 B\<close>. With a \<^verbatim>\<open>Math.log\<close> whose relative
  error is at most \<open>2^-50\<close>, for every size from 1 to \<open>1024^4 - 1\<close>, which includes every
  whole number of bytes below \<open>1024^4\<close>, the index \<open>i\<close> is 0, 1, 2 or 3 and the result is the
  size divided by \<open>1024^i\<close>, to two decimals without trailing zeros, followed by a space and
  the unit \<open>sizes[i]\<close>, one of B, KB, MB and GB.
\<close>

theorem formatFileSize_unit_in_range:
  "formatFileSize Math_log (Finite 0) = ''0 B'' \<and>
   (accurate_log Math_log \<and> 1 \<le> x \<and> x \<le> 1024 ^ 4 - 1 \<longrightarrow>
      (\<exists>i. i < 4 \<and>
         formatFileSize Math_log (Finite x) =
           hundredths_to_string (toFixed2 (of_rat x / 1024 ^ i)) @ '' '' @ sizes ! i \<and>
         sizes ! i \<in> {''B'', ''KB'', ''MB'', ''GB''}))"
proof -
  have z: "formatFileSize Math_log (Finite 0) = ''0 B''" by (simp add: formatFileSize_def)
  have "\<exists>i. i < 4 \<and>
         formatFileSize Math_log (Finite x) =
           hundredths_to_string (toFixed2 (of_rat x / 1024 ^ i)) @ '' '' @ sizes ! i \<and>
         sizes ! i \<in> {''B'', ''KB'', ''MB'', ''GB''}"
    if acc: "accurate_log Math_log" and lo: "1 \<le> x" and hi: "x \<le> 1024 ^ 4 - 1"
  proof -
    let ?r = "of_rat x :: real"
    let ?i = "\<lfloor>round_double (Math_log ?r / Math_log 1024)\<rfloor>"
    have lo': "1 \<le> ?r" using lo by (metis of_rat_1 of_rat_less_eq)
    have "?r \<le> of_rat (1024 ^ 4 - 1)" using hi by (simp only: of_rat_less_eq)
    then have hi': "?r \<le> 1024 ^ 4 - 1" by (simp add: of_rat_diff of_rat_power)
    note rng = index_in_range [OF acc lo' hi']
    have x0: "x \<noteq> 0" "\<not> x < 0" using lo by simp_all
    have p: "(1024::real) powi ?i = 1024 ^ nat ?i"
      using rng(2) by (simp add: power_int_def)
    have n: "nat ?i < 4" using rng(2,3) by linarith
    have "?i < int (length sizes)" using rng(3) by (simp add: sizes_def)
    then have s: "sizes_at ?i = sizes ! nat ?i" using rng(2) by (simp only: sizes_at_def) simp
    have e: "formatFileSize Math_log (Finite x) =
        hundredths_to_string (toFixed2 (?r / 1024 ^ nat ?i)) @ '' '' @ sizes ! nat ?i"
      using x0 rng(1) by (simp add: formatFileSize_def Let_def p s)
    have "nat ?i = 0 \<or> nat ?i = 1 \<or> nat ?i = 2 \<or> nat ?i = 3" using n by linarith
    then have m: "sizes ! nat ?i \<in> {''B'', ''KB'', ''MB'', ''GB''}"
      by (auto simp add: sizes_def)
    show ?thesis using n e m by blast
  qed
  with z show ?thesis by blast
qed

text \<open>C8, amended, with the exact logarithm and at the size 1024, which is printed as 1 KB.\<close>

theorem formatFileSize_unit_in_range_witness:
  "accurate_log ln \<and> (1::rat) \<le> 1024 \<and> (1024::rat) \<le> 1024 ^ 4 - 1 \<and>
   formatFileSize ln (Finite 0) = ''0 B'' \<and>
   formatFileSize ln (Finite 1024) = ''1 KB'' \<and>
   (\<exists>i. i < 4 \<and>
      formatFileSize ln (Finite 1024) =
        hundredths_to_string (toFixed2 (of_rat 1024 / 1024 ^ i)) @ '' '' @ sizes ! i \<and>
      sizes ! i \<in> {''B'', ''KB'', ''MB'', ''GB''})"
proof -
  have h: "accurate_log ln \<and> (1::rat) \<le> 1024 \<and> (1024::rat) \<le> 1024 ^ 4 - 1"
    using accurate_log_ln by simp
  show ?thesis
    using formatFileSize_unit_in_range [of ln 1024] h formatFileSize_1024 by blast
qed


end
